theory Spec2Isabelle
  imports Complex_Main "HOL-Library.Word"
begin

unbundle bit_operations_syntax

section \<open>Common types of the firmware\<close>

text \<open>
  \<^verbatim>\<open>esp_err_t\<close> is a C \<^verbatim>\<open>int\<close>; the three codes the repository names are those of
  ESP-IDF's \<^verbatim>\<open>esp_err.h\<close>. A collaborator may return any other code.
\<close>

type_synonym esp_err_t = int

definition ESP_OK :: esp_err_t where
  "ESP_OK = 0"

definition ESP_ERR_INVALID_ARG :: esp_err_t where
  "ESP_ERR_INVALID_ARG = 258"

definition ESP_ERR_NOT_SUPPORTED :: esp_err_t where
  "ESP_ERR_NOT_SUPPORTED = 262"

text \<open>
  A fixed-capacity \<^verbatim>\<open>char\<close> array is the list of its bytes: \<open>length\<close> is its
  \<^verbatim>\<open>sizeof\<close>. The C string stored in it (and the C string a \<^verbatim>\<open>char *\<close> points to)
  ends before the first NUL byte.
\<close>

type_synonym cbuf = "char list"

definition NUL :: char where
  "NUL = CHR 0x00"

definition c_str :: "char list \<Rightarrow> string" where
  "c_str bytes = takeWhile (\<lambda>c. c \<noteq> NUL) bytes"

text \<open>
  \<^verbatim>\<open>strncpy(dest, src, n)\<close> of the C library, for \<open>n \<le> length dest\<close>: it copies at
  most \<open>n\<close> characters of the string, pads with NUL up to \<open>n\<close> when the string is
  shorter, and leaves the bytes of \<open>dest\<close> from index \<open>n\<close> on as they were. It
  returns no error code.
\<close>

definition strncpy :: "cbuf \<Rightarrow> char list \<Rightarrow> nat \<Rightarrow> cbuf" where
  "strncpy dest src n =
     (let s = c_str src; k = min n (length s)
      in take k s @ replicate (n - k) NUL @ drop n dest)"

text \<open>
  \<^verbatim>\<open>snprintf(buf, n, ...)\<close> keeps at most \<open>n - 1\<close> characters of the formatted
  text.
\<close>

definition snprintf :: "nat \<Rightarrow> string \<Rightarrow> string" where
  "snprintf n formatted = take (n - 1) formatted"

text \<open>
  FreeRTOS' \<^verbatim>\<open>pdMS_TO_TICKS\<close> on a 32-bit \<^verbatim>\<open>TickType_t\<close>; \<^verbatim>\<open>configTICK_RATE_HZ\<close> is
  a build constant that the repository's sources do not fix, so it is a parameter.
\<close>

definition pdMS_TO_TICKS :: "32 word \<Rightarrow> 32 word \<Rightarrow> 32 word" where
  "pdMS_TO_TICKS hz ms = (ms * hz) div 1000"

subsection \<open>The configuration structure, as far as the two source files use it\<close>

record app_config_t =
  device_name :: cbuf
  firmware_version :: cbuf
  wifi_ssid :: cbuf
  wifi_password :: cbuf
  web_server_username :: cbuf
  web_server_password :: cbuf
  ntp_enabled :: bool
  ntp_server1 :: cbuf
  ntp_server2 :: cbuf
  ntp_server3 :: cbuf
  mqtt_enabled :: bool
  mqtt_broker_url :: cbuf
  mqtt_port :: int
  mqtt_username :: cbuf
  mqtt_password :: cbuf
  mqtt_client_id :: cbuf
  mqtt_topic_prefix :: cbuf
  ota_enabled :: bool
  ota_auto_update :: bool
  ota_update_url :: cbuf

record csi_collector_config_t =
  sample_rate :: int
  buffer_size :: int
  filter_enabled :: bool
  filter_threshold :: real

record csi_collector_stats_t =
  packets_received :: nat
  packets_processed :: nat
  packets_dropped :: nat

record csi_data_t =
  timestamp :: "64 word"
  mac :: "8 word list"
  rssi :: int
  len :: int

record timeval =
  tv_sec :: int
  tv_usec :: int

subsection \<open>cJSON values\<close>

datatype cJSON =
    JNull
  | JBool bool
  | JNumber real
  | JString string
  | JArray "cJSON list"
  | JObject "(string \<times> cJSON) list"

definition tolower_c :: "char \<Rightarrow> char" where
  "tolower_c c =
     (let n = (of_char c :: nat) in if 65 \<le> n \<and> n \<le> 90 then char_of (n + 32) else c)"

text \<open>
  \<^verbatim>\<open>cJSON_GetObjectItem\<close> walks the children of the item and returns the first one
  whose name equals the key, ignoring case; an item that is not an object has no named
  child.
\<close>

definition cJSON_GetObjectItem :: "cJSON \<Rightarrow> string \<Rightarrow> cJSON option" where
  "cJSON_GetObjectItem object name =
     (case object of
        JObject children \<Rightarrow>
          map_option snd
            (find (\<lambda>kv. map tolower_c (fst kv) = map tolower_c name) children)
      | _ \<Rightarrow> None)"

text \<open>\<^verbatim>\<open>item->valueint\<close>: the number cast to \<^verbatim>\<open>int\<close>, saturated at the type's bounds.\<close>

definition valueint :: "real \<Rightarrow> int" where
  "valueint r =
     (if 2147483647 \<le> r then 2147483647
      else if r \<le> - 2147483648 then - 2147483648
      else if 0 \<le> r then \<lfloor>r\<rfloor> else \<lceil>r\<rceil>)"

subsection \<open>What the firmware does to the outside, and how a call ends\<close>

datatype event =
    VTaskDelay "32 word"
  | EspRestart
  | NvsFlashErase
  | AppConfigSave app_config_t
  | MqttClientStop
  | MqttClientInit app_config_t
  | MqttClientStart
  | MqttClientPublish string cJSON
  | CsiCollectorUpdateConfig csi_collector_config_t
  | CsiCollectorStart
  | CsiCollectorStop
  | CsiCollectorGetData "32 word"
  | CsiCollectorFreeData csi_data_t
  | MqttClientPublishCsiData csi_data_t
  | MqttPublishSystemMetrics string "32 word" "32 word" nat
  | OtaUpdaterCheckForUpdates
  | MqttPublishAlert string string string string

text \<open>
  \<^verbatim>\<open>esp_restart()\<close> does not return: a call that reaches it ends in \<open>Restarts\<close> and
  nothing after it in the source runs.
\<close>

datatype 'a outcome = Returns 'a | Restarts

text \<open>
  The collaborators (configuration store, collector, clock, MQTT wrapper, OTA updater,
  RTOS) are outside the repository's sources. What each call returns is an input of the
  model, sampled once for the handler invocation or the loop iteration being run; an
  out-parameter is paired with the return code.
\<close>

record collaborators =
  configTICK_RATE_HZ :: "32 word"
  app_config_load :: "esp_err_t \<times> app_config_t"
  app_config_save :: "app_config_t \<Rightarrow> esp_err_t"
  csi_collector_get_config :: "esp_err_t \<times> csi_collector_config_t"
  csi_collector_update_config :: "csi_collector_config_t \<Rightarrow> esp_err_t"
  csi_collector_start :: esp_err_t
  csi_collector_stop :: esp_err_t
  csi_collector_is_running :: bool
  csi_collector_get_stats :: "esp_err_t \<times> csi_collector_stats_t"
  csi_collector_get_data :: "esp_err_t \<times> csi_data_t"
  ntp_sync_is_synchronized :: bool
  ntp_sync_get_time :: "esp_err_t \<times> timeval"
  mqtt_client_is_connected :: bool
  mqtt_client_publish_csi_data :: "csi_data_t \<Rightarrow> esp_err_t"
  mqtt_publish_alert :: esp_err_t
  ota_updater_check_for_updates :: esp_err_t
  xTaskGetTickCount :: "32 word"
  esp_timer_get_time :: nat
  esp_get_free_heap_size :: "32 word"
  esp_get_minimum_free_heap_size :: "32 word"
  uxTaskGetNumberOfTasks :: nat

section \<open>remote\_config.c\<close>

definition set_number_field ::
  "cJSON \<Rightarrow> string \<Rightarrow> (real \<Rightarrow> 'a \<Rightarrow> 'a) \<Rightarrow> 'a \<Rightarrow> 'a" where
  "set_number_field config key upd c =
     (case cJSON_GetObjectItem config key of
        Some (JNumber r) \<Rightarrow> upd r c
      | _ \<Rightarrow> c)"

definition set_bool_field ::
  "cJSON \<Rightarrow> string \<Rightarrow> (bool \<Rightarrow> 'a \<Rightarrow> 'a) \<Rightarrow> 'a \<Rightarrow> 'a" where
  "set_bool_field config key upd c =
     (case cJSON_GetObjectItem config key of
        Some (JBool b) \<Rightarrow> upd b c
      | _ \<Rightarrow> c)"

definition set_string_field ::
  "cJSON \<Rightarrow> string \<Rightarrow> (string \<Rightarrow> 'a \<Rightarrow> 'a) \<Rightarrow> 'a \<Rightarrow> 'a" where
  "set_string_field config key upd c =
     (case cJSON_GetObjectItem config key of
        Some (JString s) \<Rightarrow> upd s c
      | _ \<Rightarrow> c)"

definition handle_csi_config :: "collaborators \<Rightarrow> cJSON \<Rightarrow> event list \<times> esp_err_t" where
  "handle_csi_config env config =
     (case csi_collector_get_config env of
        (err, csi_config) \<Rightarrow>
          if err \<noteq> ESP_OK then ([], err)
          else
            let c1 = set_number_field config ''sample_rate''
                       (\<lambda>r c. c\<lparr>sample_rate := valueint r\<rparr>) csi_config;
                c2 = set_number_field config ''buffer_size''
                       (\<lambda>r c. c\<lparr>buffer_size := valueint r\<rparr>) c1;
                c3 = set_bool_field config ''filter_enabled''
                       (\<lambda>b c. c\<lparr>filter_enabled := b\<rparr>) c2;
                c4 = set_number_field config ''filter_threshold''
                       (\<lambda>r c. c\<lparr>filter_threshold := r\<rparr>) c3
            in ([CsiCollectorUpdateConfig c4], csi_collector_update_config env c4))"

definition mqtt_update :: "cJSON \<Rightarrow> app_config_t \<Rightarrow> app_config_t" where
  "mqtt_update config app_cfg =
     (let c1 = set_string_field config ''broker_url''
                 (\<lambda>s c. c\<lparr>mqtt_broker_url :=
                    strncpy (mqtt_broker_url c) s (length (mqtt_broker_url c) - 1)\<rparr>)
                 app_cfg;
          c2 = set_number_field config ''port''
                 (\<lambda>r c. c\<lparr>mqtt_port := valueint r\<rparr>) c1
      in set_string_field config ''topic_prefix''
           (\<lambda>s c. c\<lparr>mqtt_topic_prefix :=
              strncpy (mqtt_topic_prefix c) s (length (mqtt_topic_prefix c) - 1)\<rparr>)
           c2)"

definition handle_mqtt_config :: "collaborators \<Rightarrow> cJSON \<Rightarrow> event list \<times> esp_err_t" where
  "handle_mqtt_config env config =
     (case app_config_load env of
        (err, app_cfg) \<Rightarrow>
          if err \<noteq> ESP_OK then ([], err)
          else
            let c3 = mqtt_update config app_cfg;
                err' = app_config_save env c3
            in if err' = ESP_OK
               then ([AppConfigSave c3, MqttClientStop,
                      VTaskDelay (pdMS_TO_TICKS (configTICK_RATE_HZ env) 1000),
                      MqttClientInit c3, MqttClientStart], err')
               else ([AppConfigSave c3], err'))"

text \<open>
  \<^verbatim>\<open>handle_node_settings\<close>: the node name and the two WiFi strings are copied with
  \<^verbatim>\<open>strncpy(field, value, sizeof(field) - 1)\<close>; a WiFi string that is present sets
  \<^verbatim>\<open>restart_required\<close>, whatever its value.
\<close>

definition node_name_update :: "cJSON \<Rightarrow> app_config_t \<Rightarrow> app_config_t" where
  "node_name_update config app_cfg =
     set_string_field config ''node_name''
       (\<lambda>s c. c\<lparr>device_name := strncpy (device_name c) s (length (device_name c) - 1)\<rparr>)
       app_cfg"

definition wifi_update :: "cJSON \<Rightarrow> app_config_t \<times> bool \<Rightarrow> app_config_t \<times> bool" where
  "wifi_update config st =
     (case cJSON_GetObjectItem config ''wifi'' of
        None \<Rightarrow> st
      | Some wifi \<Rightarrow>
          let st1 = set_string_field wifi ''ssid''
                      (\<lambda>s (c, r). (c\<lparr>wifi_ssid :=
                          strncpy (wifi_ssid c) s (length (wifi_ssid c) - 1)\<rparr>, True)) st
          in set_string_field wifi ''password''
               (\<lambda>s (c, r). (c\<lparr>wifi_password :=
                   strncpy (wifi_password c) s (length (wifi_password c) - 1)\<rparr>, True)) st1)"

definition handle_node_settings ::
  "collaborators \<Rightarrow> cJSON \<Rightarrow> event list \<times> esp_err_t outcome" where
  "handle_node_settings env config =
     (case app_config_load env of
        (err, app_cfg) \<Rightarrow>
          if err \<noteq> ESP_OK then ([], Returns err)
          else
            (case wifi_update config (node_name_update config app_cfg, False) of
               (cfg', restart_required) \<Rightarrow>
                 let err' = app_config_save env cfg'
                 in if err' = ESP_OK \<and> restart_required
                    then ([AppConfigSave cfg',
                           VTaskDelay (pdMS_TO_TICKS (configTICK_RATE_HZ env) 5000),
                           EspRestart], Restarts)
                    else ([AppConfigSave cfg'], Returns err')))"

text \<open>
  The acknowledgement that \<^verbatim>\<open>remote_config_update_handler\<close> publishes after the three
  sections, when the configuration loads.
\<close>

definition config_ack :: "collaborators \<Rightarrow> esp_err_t \<Rightarrow> event list" where
  "config_ack env err =
     (case app_config_load env of
        (lerr, app_cfg) \<Rightarrow>
          if lerr = ESP_OK
          then [MqttClientPublish
                  (snprintf 128 (''devices/'' @ c_str (device_name app_cfg) @ ''/config/ack''))
                  (JObject
                     [(''status'', JString (if err = ESP_OK then ''success'' else ''failed'')),
                      (''timestamp'', JNumber (real (esp_timer_get_time env) / 1000000))])]
          else [])"

definition is_mqtt_publish :: "event \<Rightarrow> bool" where
  "is_mqtt_publish e = (case e of MqttClientPublish topic doc \<Rightarrow> True | _ \<Rightarrow> False)"

definition remote_config_update_handler ::
  "collaborators \<Rightarrow> cJSON option \<Rightarrow> event list \<times> esp_err_t outcome" where
  "remote_config_update_handler env config_opt =
     (case config_opt of
        None \<Rightarrow> ([], Returns ESP_ERR_INVALID_ARG)
      | Some config \<Rightarrow>
          let (ev1, err1) =
                (case cJSON_GetObjectItem config ''csi'' of
                   Some csi \<Rightarrow> handle_csi_config env csi
                 | None \<Rightarrow> ([], ESP_OK));
              (ev2, err2) =
                (case cJSON_GetObjectItem config ''mqtt'' of
                   Some mqtt \<Rightarrow> handle_mqtt_config env mqtt
                 | None \<Rightarrow> ([], err1))
          in (case cJSON_GetObjectItem config ''node'' of
                Some node \<Rightarrow>
                  (case handle_node_settings env node of
                     (ev3, Restarts) \<Rightarrow> (ev1 @ ev2 @ ev3, Restarts)
                   | (ev3, Returns err3) \<Rightarrow>
                       (ev1 @ ev2 @ ev3 @ config_ack env err3, Returns err3))
              | None \<Rightarrow> (ev1 @ ev2 @ config_ack env err2, Returns err2)))"

definition publish_detailed_status :: "collaborators \<Rightarrow> event list" where
  "publish_detailed_status env =
     (case app_config_load env of
        (err, cfg) \<Rightarrow>
          if err \<noteq> ESP_OK then []
          else
            let csi_status =
                  JObject
                    ((''running'', JBool (csi_collector_is_running env)) #
                     (case csi_collector_get_stats env of
                        (serr, csi_stats) \<Rightarrow>
                          if serr = ESP_OK
                          then [(''packets_received'', JNumber (real (packets_received csi_stats))),
                                (''packets_processed'', JNumber (real (packets_processed csi_stats))),
                                (''packets_dropped'', JNumber (real (packets_dropped csi_stats)))]
                          else []));
                status =
                  JObject
                    [(''device_name'', JString (c_str (device_name cfg))),
                     (''version'', JString (c_str (firmware_version cfg))),
                     (''uptime'', JNumber (real (esp_timer_get_time env div 1000000))),
                     (''free_heap'', JNumber (real (unat (esp_get_free_heap_size env)))),
                     (''csi'', csi_status)]
            in [MqttClientPublish
                  (snprintf 128 (''devices/'' @ c_str (device_name cfg) @ ''/status/detailed''))
                  status])"

definition remote_command_handler ::
  "collaborators \<Rightarrow> cJSON option \<Rightarrow> event list \<times> esp_err_t outcome" where
  "remote_command_handler env params_opt =
     (case params_opt of
        None \<Rightarrow> ([], Returns ESP_ERR_INVALID_ARG)
      | Some params \<Rightarrow>
          (case cJSON_GetObjectItem params ''command'' of
             Some (JString valuestring) \<Rightarrow>
               let command = c_str valuestring
               in if command = ''restart''
                  then ([VTaskDelay (pdMS_TO_TICKS (configTICK_RATE_HZ env) 2000), EspRestart],
                        Restarts)
                  else if command = ''start_csi''
                  then ([CsiCollectorStart], Returns (csi_collector_start env))
                  else if command = ''stop_csi''
                  then ([CsiCollectorStop], Returns (csi_collector_stop env))
                  else if command = ''calibrate''
                  then ([], Returns ESP_OK)
                  else if command = ''factory_reset''
                  then ([NvsFlashErase, EspRestart], Restarts)
                  else if command = ''get_status''
                  then (publish_detailed_status env, Returns ESP_OK)
                  else ([], Returns ESP_ERR_NOT_SUPPORTED)
           | _ \<Rightarrow> ([], Returns ESP_ERR_INVALID_ARG)))"

text \<open>The fixed command set of \<^verbatim>\<open>remote_command_handler\<close>.\<close>

definition known_commands :: "string list" where
  "known_commands =
     [''restart'', ''start_csi'', ''stop_csi'', ''calibrate'', ''factory_reset'', ''get_status'']"

section \<open>main.c: the loop of \<^verbatim>\<open>app_main_task\<close>\<close>

text \<open>The local counters and timers of \<^verbatim>\<open>app_main_task\<close> (\<^verbatim>\<open>uint32_t\<close>, \<^verbatim>\<open>TickType_t\<close>).\<close>

record loop_state =
  loop_counter :: "32 word"
  csi_data_count :: "32 word"
  mqtt_publish_count :: "32 word"
  mqtt_publish_errors :: "32 word"
  last_stats_time :: "32 word"
  last_ota_check :: "32 word"
  last_system_metrics :: "32 word"

text \<open>
  Lines 211-216: the timestamp is replaced when the clock reports synchronized and
  \<^verbatim>\<open>ntp_sync_get_time\<close> returns \<^verbatim>\<open>ESP_OK\<close>. The product and sum are taken in
  \<^verbatim>\<open>unsigned long long\<close>, that is modulo \<open>2 ^ 64\<close>.
\<close>

definition clock_timestamp :: "timeval \<Rightarrow> 64 word" where
  "clock_timestamp tv = word_of_int (tv_sec tv * 1000000 + tv_usec tv)"

definition correct_timestamp :: "collaborators \<Rightarrow> csi_data_t \<Rightarrow> csi_data_t" where
  "correct_timestamp env csi_data =
     (if ntp_sync_is_synchronized env
      then (case ntp_sync_get_time env of
              (err, tv) \<Rightarrow>
                if err = ESP_OK then csi_data\<lparr>timestamp := clock_timestamp tv\<rparr>
                else csi_data)
      else csi_data)"

text \<open>Lines 205-237: the CSI part of one iteration.\<close>

definition process_csi :: "collaborators \<Rightarrow> loop_state \<Rightarrow> event list \<times> loop_state" where
  "process_csi env st =
     (if csi_collector_is_running env
      then
        (case csi_collector_get_data env of
           (err, raw) \<Rightarrow>
             if err = ESP_OK
             then
               let st1 = st\<lparr>csi_data_count := csi_data_count st + 1\<rparr>;
                   csi_data = correct_timestamp env raw
               in if mqtt_client_is_connected env
                  then
                    let perr = mqtt_client_publish_csi_data env csi_data;
                        st2 = (if perr = ESP_OK
                               then st1\<lparr>mqtt_publish_count := mqtt_publish_count st1 + 1\<rparr>
                               else st1\<lparr>mqtt_publish_errors := mqtt_publish_errors st1 + 1\<rparr>)
                    in ([CsiCollectorGetData (pdMS_TO_TICKS (configTICK_RATE_HZ env) 100),
                         MqttClientPublishCsiData csi_data,
                         CsiCollectorFreeData csi_data], st2)
                  else ([CsiCollectorGetData (pdMS_TO_TICKS (configTICK_RATE_HZ env) 100),
                         CsiCollectorFreeData csi_data], st1)
             else ([CsiCollectorGetData (pdMS_TO_TICKS (configTICK_RATE_HZ env) 100)], st))
      else ([], st))"

text \<open>
  Lines 240-303: the statistics report (log output only), the metrics publication and
  the update check, each on its own timer.
\<close>

definition periodic :: "collaborators \<Rightarrow> app_config_t \<Rightarrow> loop_state \<Rightarrow> event list \<times> loop_state" where
  "periodic env config st =
     (let hz = configTICK_RATE_HZ env;
          current_time = xTaskGetTickCount env;
          st1 = (if pdMS_TO_TICKS hz 30000 \<le> current_time - last_stats_time st
                 then st\<lparr>last_stats_time := current_time\<rparr> else st);
          (ev2, st2) =
            (if mqtt_enabled config \<and> mqtt_client_is_connected env \<and>
                pdMS_TO_TICKS hz 300000 \<le> current_time - last_system_metrics st1
             then ([MqttPublishSystemMetrics (c_str (device_name config))
                      (esp_get_free_heap_size env) (esp_get_minimum_free_heap_size env)
                      (uxTaskGetNumberOfTasks env)],
                   st1\<lparr>last_system_metrics := current_time\<rparr>)
             else ([], st1));
          (ev3, st3) =
            (if ota_enabled config \<and> ota_auto_update config \<and>
                pdMS_TO_TICKS hz 300000 \<le> current_time - last_ota_check st2
             then ([OtaUpdaterCheckForUpdates], st2\<lparr>last_ota_check := current_time\<rparr>)
             else ([], st2))
      in (ev2 @ ev3, st3))"

text \<open>
  Lines 306-313: the low-memory guard. The value \<^verbatim>\<open>mqtt_publish_alert\<close> returns is
  discarded by the source, so the model never reads it.
\<close>

definition health_guard :: "collaborators \<Rightarrow> app_config_t \<Rightarrow> event list \<times> unit outcome" where
  "health_guard env config =
     (if esp_get_free_heap_size env < 10000
      then ([MqttPublishAlert (c_str (device_name config)) ''ERROR'' ''SYSTEM''
               ''Critical low memory'',
             VTaskDelay (pdMS_TO_TICKS (configTICK_RATE_HZ env) 5000),
             EspRestart], Restarts)
      else ([], Returns ()))"

text \<open>One iteration of \<^verbatim>\<open>while (1)\<close>, lines 202-315.\<close>

definition loop_iteration ::
  "app_config_t \<Rightarrow> collaborators \<Rightarrow> loop_state \<Rightarrow> event list \<times> loop_state outcome" where
  "loop_iteration config env st =
     (let st0 = st\<lparr>loop_counter := loop_counter st + 1\<rparr>;
          (ev1, st1) = process_csi env st0;
          (ev2, st2) = periodic env config st1
      in (case health_guard env config of
            (ev3, Restarts) \<Rightarrow> (ev1 @ ev2 @ ev3, Restarts)
          | (ev3, Returns u) \<Rightarrow>
              (ev1 @ ev2 @ ev3 @ [VTaskDelay (pdMS_TO_TICKS (configTICK_RATE_HZ env) 100)],
               Returns st2)))"

text \<open>
  The loop never leaves \<^verbatim>\<open>while (1)\<close> but through \<^verbatim>\<open>esp_restart()\<close>. It is run on
  the list of what the collaborators answer in each iteration: the run stops at the
  restart, or returns the state reached when the list is used up.
\<close>

fun app_main_loop ::
  "app_config_t \<Rightarrow> collaborators list \<Rightarrow> loop_state \<Rightarrow> event list \<times> loop_state outcome" where
  "app_main_loop config [] st = ([], Returns st)"
| "app_main_loop config (env # envs) st =
     (case loop_iteration config env st of
        (evs, Restarts) \<Rightarrow> (evs, Restarts)
      | (evs, Returns st') \<Rightarrow>
          (case app_main_loop config envs st' of (evs', r) \<Rightarrow> (evs @ evs', r)))"

definition is_restart :: "event \<Rightarrow> bool" where
  "is_restart e = (e = EspRestart)"

definition is_alert :: "event \<Rightarrow> bool" where
  "is_alert e = (case e of MqttPublishAlert d l c m \<Rightarrow> True | _ \<Rightarrow> False)"

definition is_get_data :: "event \<Rightarrow> bool" where
  "is_get_data e = (case e of CsiCollectorGetData t \<Rightarrow> True | _ \<Rightarrow> False)"

definition is_publish_csi :: "event \<Rightarrow> bool" where
  "is_publish_csi e = (case e of MqttClientPublishCsiData d \<Rightarrow> True | _ \<Rightarrow> False)"

definition is_free_data :: "event \<Rightarrow> bool" where
  "is_free_data e = (case e of CsiCollectorFreeData d \<Rightarrow> True | _ \<Rightarrow> False)"

subsection \<open>main.c: the string members of the start-up structures\<close>

text \<open>
  Before the loop, \<^verbatim>\<open>app_main_task\<close> fills four local structures from the loaded
  configuration (lines 56-64, 93-100, 133-145 and 176-183; the NTP and MQTT ones only
  when the service is enabled). Each is declared with an initialiser, so the members
  the initialiser does not name start as zero bytes, and each string member is then
  filled by \<^verbatim>\<open>strncpy(member, source, sizeof(member) - 1)\<close>. The structure types are
  declared outside the sources, so the size of every member is a parameter; the scalar
  members, which the initialisers set, are left out.
\<close>

record member_sizes =
  sizeof_web_username :: nat
  sizeof_web_password :: nat
  sizeof_ntp_server1 :: nat
  sizeof_ntp_server2 :: nat
  sizeof_ntp_server3 :: nat
  sizeof_mqtt_broker_url :: nat
  sizeof_mqtt_username :: nat
  sizeof_mqtt_password :: nat
  sizeof_mqtt_client_id :: nat
  sizeof_mqtt_topic_prefix :: nat
  sizeof_ota_server_url :: nat

record web_server_config_t =
  web_username :: cbuf
  web_password :: cbuf

record ntp_config_t =
  ntp_cfg_server1 :: cbuf
  ntp_cfg_server2 :: cbuf
  ntp_cfg_server3 :: cbuf

record mqtt_config_t =
  mqtt_cfg_broker_url :: cbuf
  mqtt_cfg_username :: cbuf
  mqtt_cfg_password :: cbuf
  mqtt_cfg_client_id :: cbuf
  mqtt_cfg_topic_prefix :: cbuf

record ota_config_t =
  ota_cfg_server_url :: cbuf

definition web_config_of :: "member_sizes \<Rightarrow> app_config_t \<Rightarrow> web_server_config_t" where
  "web_config_of sz config =
     \<lparr>web_username =
        strncpy (replicate (sizeof_web_username sz) NUL) (web_server_username config)
          (sizeof_web_username sz - 1),
      web_password =
        strncpy (replicate (sizeof_web_password sz) NUL) (web_server_password config)
          (sizeof_web_password sz - 1)\<rparr>"

definition ntp_config_of :: "member_sizes \<Rightarrow> app_config_t \<Rightarrow> ntp_config_t" where
  "ntp_config_of sz config =
     \<lparr>ntp_cfg_server1 =
        strncpy (replicate (sizeof_ntp_server1 sz) NUL) (ntp_server1 config)
          (sizeof_ntp_server1 sz - 1),
      ntp_cfg_server2 =
        strncpy (replicate (sizeof_ntp_server2 sz) NUL) (ntp_server2 config)
          (sizeof_ntp_server2 sz - 1),
      ntp_cfg_server3 =
        strncpy (replicate (sizeof_ntp_server3 sz) NUL) (ntp_server3 config)
          (sizeof_ntp_server3 sz - 1)\<rparr>"

definition mqtt_config_of :: "member_sizes \<Rightarrow> app_config_t \<Rightarrow> mqtt_config_t" where
  "mqtt_config_of sz config =
     \<lparr>mqtt_cfg_broker_url =
        strncpy (replicate (sizeof_mqtt_broker_url sz) NUL) (mqtt_broker_url config)
          (sizeof_mqtt_broker_url sz - 1),
      mqtt_cfg_username =
        strncpy (replicate (sizeof_mqtt_username sz) NUL) (mqtt_username config)
          (sizeof_mqtt_username sz - 1),
      mqtt_cfg_password =
        strncpy (replicate (sizeof_mqtt_password sz) NUL) (mqtt_password config)
          (sizeof_mqtt_password sz - 1),
      mqtt_cfg_client_id =
        strncpy (replicate (sizeof_mqtt_client_id sz) NUL) (mqtt_client_id config)
          (sizeof_mqtt_client_id sz - 1),
      mqtt_cfg_topic_prefix =
        strncpy (replicate (sizeof_mqtt_topic_prefix sz) NUL) (mqtt_topic_prefix config)
          (sizeof_mqtt_topic_prefix sz - 1)\<rparr>"

definition ota_config_of :: "member_sizes \<Rightarrow> app_config_t \<Rightarrow> ota_config_t" where
  "ota_config_of sz config =
     \<lparr>ota_cfg_server_url =
        strncpy (replicate (sizeof_ota_server_url sz) NUL) (ota_update_url config)
          (sizeof_ota_server_url sz - 1)\<rparr>"

text \<open>
  The structures \<^verbatim>\<open>app_main_task\<close> builds at start-up: the web server's and the
  updater's always, the clock's and the MQTT client's when enabled.
\<close>

definition startup_configs ::
  "member_sizes \<Rightarrow> app_config_t \<Rightarrow>
   web_server_config_t \<times> ntp_config_t option \<times> mqtt_config_t option \<times> ota_config_t" where
  "startup_configs sz config =
     (web_config_of sz config,
      (if ntp_enabled config then Some (ntp_config_of sz config) else None),
      (if mqtt_enabled config then Some (mqtt_config_of sz config) else None),
      ota_config_of sz config)"

subsection \<open>Reading a copy's result\<close>

text \<open>
  A string is over-long for a field of \<open>n\<close> bytes when it does not fit with its
  terminator; cut to the field it is its first \<open>n - 1\<close> characters. The configuration
  a handler hands to \<^verbatim>\<open>app_config_save\<close> is read off its trace.
\<close>

definition overlong :: "char list \<Rightarrow> nat \<Rightarrow> bool" where
  "overlong src n = (0 < n \<and> n \<le> length (c_str src))"

definition cut_to :: "char list \<Rightarrow> nat \<Rightarrow> string" where
  "cut_to src n = take (n - 1) (c_str src)"

fun saved_config :: "event list \<Rightarrow> app_config_t option" where
  "saved_config [] = None"
| "saved_config (AppConfigSave c # es) = Some c"
| "saved_config (e # es) = saved_config es"

section \<open>websocket\_telemetry.h: the wire message\<close>

datatype websocket_msg_type_t =
    WS_MSG_CSI_DATA
  | WS_MSG_SYSTEM_METRICS
  | WS_MSG_HEARTBEAT
  | WS_MSG_ALERT
  | WS_MSG_BATCH_CSI
  | WS_MSG_PING
  | WS_MSG_PONG

fun msg_type_code :: "websocket_msg_type_t \<Rightarrow> 8 word" where
  "msg_type_code WS_MSG_CSI_DATA = 1"
| "msg_type_code WS_MSG_SYSTEM_METRICS = 2"
| "msg_type_code WS_MSG_HEARTBEAT = 3"
| "msg_type_code WS_MSG_ALERT = 4"
| "msg_type_code WS_MSG_BATCH_CSI = 5"
| "msg_type_code WS_MSG_PING = 6"
| "msg_type_code WS_MSG_PONG = 7"


record websocket_msg_header_t =
  msg_type :: "8 word"
  device_id_len :: "8 word"
  payload_len :: "16 word"
  sequence_num :: "32 word"




text \<open>
  The packed header structure as its eight bytes in memory, fields in declaration
  order, multi-byte fields least significant byte first (the byte order of the
  target; the specification fixes the field order and widths only).
\<close>

definition header_bytes :: "websocket_msg_header_t \<Rightarrow> 8 word list" where
  "header_bytes h =
     [msg_type h, device_id_len h,
      ucast (payload_len h), ucast (drop_bit 8 (payload_len h)),
      ucast (sequence_num h), ucast (drop_bit 8 (sequence_num h)),
      ucast (drop_bit 16 (sequence_num h)), ucast (drop_bit 24 (sequence_num h))]"

definition header_of_bytes :: "8 word list \<Rightarrow> websocket_msg_header_t" where
  "header_of_bytes bs =
     \<lparr>msg_type = bs ! 0, device_id_len = bs ! 1,
      payload_len = ucast (bs ! 2) OR push_bit 8 (ucast (bs ! 3)),
      sequence_num = ucast (bs ! 4) OR push_bit 8 (ucast (bs ! 5)) OR
                     push_bit 16 (ucast (bs ! 6)) OR push_bit 24 (ucast (bs ! 7))\<rparr>"

datatype ws_error = PayloadTooLarge | FramingError | InvalidArgument | NotConnected

text \<open>
  Modelled from the spec: the encoder of the wire codec, whose implementation
  (\<^verbatim>\<open>websocket_telemetry.c\<close>) is not among the sources. It builds the 8-byte header
  (tag, device-id length, payload length, sequence number) followed by the message
  body, and fails with \<open>PayloadTooLarge\<close> when the payload exceeds the 16-bit limit or
  the configured buffer size. The header's \<^verbatim>\<open>device_id_len\<close> counts the bytes of the
  device id, which the body carries ahead of the payload bytes; the decoder takes them
  back out, as the round trip of the specification asks. The sequence number is the
  channel's, passed in.
\<close>

definition encode ::
  "nat \<Rightarrow> 32 word \<Rightarrow> websocket_msg_type_t \<Rightarrow> 8 word list \<Rightarrow> 8 word list \<Rightarrow>
   ws_error + 8 word list" where
  "encode buf_size seq tag dev_id payload =
     (if 65535 < length payload \<or> buf_size < length payload then Inl PayloadTooLarge
      else Inr (header_bytes
                  \<lparr>msg_type = msg_type_code tag,
                   device_id_len = of_nat (length dev_id),
                   payload_len = of_nat (length payload),
                   sequence_num = seq\<rparr> @ dev_id @ payload))"



section \<open>The streaming channel\<close>


datatype ChannelState = Disconnected | Connecting | Connected | Reconnecting | Closed




section \<open>http\_telemetry.h: the request/response channel\<close>

record http_telemetry_config_t =
  server_url :: string
  device_id :: string
  auth_token :: string
  timeout_ms :: "32 word"
  retry_count :: "32 word"
  compress_data :: bool

record http_stats =
  requests_sent :: "32 word"
  requests_failed :: "32 word"
  bytes_sent :: "32 word"

datatype attempt_result = AttemptSucceeded | AttemptTimedOut | AttemptFailed

datatype http_event = HttpAttempt string "32 word" | BackoffDelay nat

datatype http_error = TransmissionFailed

text \<open>
  Modelled from the spec: the attempt loop of the request/response channel's send
  operation, implemented outside the sources (\<^verbatim>\<open>http_telemetry.h\<close> declares the
  configuration and the statistics only). \<open>respond i\<close> is what the endpoint does on
  attempt \<open>i\<close>; each attempt is given \<^verbatim>\<open>timeout_ms\<close> as its bound; a delay
  \<open>backoff i\<close> separates attempt \<open>i\<close> from the next one. The loop stops at the first
  success or when the attempts are used up.
\<close>

fun send_attempts ::
  "(nat \<Rightarrow> attempt_result) \<Rightarrow> (nat \<Rightarrow> nat) \<Rightarrow> string \<Rightarrow> 32 word \<Rightarrow> nat \<Rightarrow> nat \<Rightarrow>
   http_event list \<times> bool" where
  "send_attempts respond backoff endpoint tmo 0 i = ([], False)"
| "send_attempts respond backoff endpoint tmo (Suc remaining) i =
     (if respond i = AttemptSucceeded then ([HttpAttempt endpoint tmo], True)
      else
        (case send_attempts respond backoff endpoint tmo remaining (Suc i) of
           (evs, ok) \<Rightarrow>
             (HttpAttempt endpoint tmo #
              (if remaining = 0 then [] else [BackoffDelay (backoff i)]) @ evs, ok)))"

text \<open>
  Modelled from the spec: \<open>send(endpoint, payload, retry_count)\<close> of the
  request/response channel. It returns \<open>TransmissionFailed\<close> after all attempts are
  exhausted and then counts one failed request for the call; a success counts one sent
  request and its bytes.
\<close>

definition http_send ::
  "http_telemetry_config_t \<Rightarrow> (nat \<Rightarrow> attempt_result) \<Rightarrow> (nat \<Rightarrow> nat) \<Rightarrow> http_stats \<Rightarrow>
   string \<Rightarrow> 8 word list \<Rightarrow> nat \<Rightarrow> http_event list \<times> (http_error + unit) \<times> http_stats" where
  "http_send cfg respond backoff stats endpoint payload attempts =
     (case send_attempts respond backoff endpoint (timeout_ms cfg) attempts 0 of
        (evs, ok) \<Rightarrow>
          if ok
          then (evs, Inr (),
                stats\<lparr>requests_sent := requests_sent stats + 1,
                      bytes_sent := bytes_sent stats + of_nat (length payload)\<rparr>)
          else (evs, Inl TransmissionFailed,
                stats\<lparr>requests_failed := requests_failed stats + 1\<rparr>))"

definition is_attempt :: "http_event \<Rightarrow> bool" where
  "is_attempt e = (case e of HttpAttempt ep t \<Rightarrow> True | _ \<Rightarrow> False)"

section \<open>Concrete inputs\<close>

definition example_config :: app_config_t where
  "example_config =
     \<lparr>device_name = ''node1'' @ [NUL, NUL, NUL],
      firmware_version = ''1.0'' @ [NUL],
      wifi_ssid = ''lab'' @ [NUL, NUL, NUL, NUL, NUL],
      wifi_password = ''secret'' @ [NUL, NUL],
      web_server_username = ''admin'' @ [NUL],
      web_server_password = ''password'' @ [NUL],
      ntp_enabled = True,
      ntp_server1 = ''pool.ntp.org'' @ [NUL],
      ntp_server2 = ''time.nist.gov'' @ [NUL],
      ntp_server3 = ''time.google.com'' @ [NUL],
      mqtt_enabled = True,
      mqtt_broker_url = ''mqtt://b'' @ [NUL, NUL, NUL, NUL],
      mqtt_port = 1883,
      mqtt_username = ''user'' @ [NUL],
      mqtt_password = ''pass'' @ [NUL],
      mqtt_client_id = ''esp32'' @ [NUL],
      mqtt_topic_prefix = ''csi/lab'' @ [NUL],
      ota_enabled = False,
      ota_auto_update = False,
      ota_update_url = ''https://example.com/firmware.bin'' @ [NUL]\<rparr>"

definition four_byte_members :: member_sizes where
  "four_byte_members =
     \<lparr>sizeof_web_username = 4, sizeof_web_password = 4, sizeof_ntp_server1 = 4,
      sizeof_ntp_server2 = 4, sizeof_ntp_server3 = 4, sizeof_mqtt_broker_url = 4,
      sizeof_mqtt_username = 4, sizeof_mqtt_password = 4, sizeof_mqtt_client_id = 4,
      sizeof_mqtt_topic_prefix = 4, sizeof_ota_server_url = 4\<rparr>"

definition long_node_update :: cJSON where
  "long_node_update =
     JObject [(''node_name'', JString ''averyverylongname''),
              (''wifi'', JObject [(''ssid'', JString ''averyverylongssid''),
                                  (''password'', JString ''averyverylongpassword'')])]"

definition long_mqtt_update :: cJSON where
  "long_mqtt_update =
     JObject [(''broker_url'', JString ''mqtt://broker.example.com''),
              (''port'', JNumber 8883),
              (''topic_prefix'', JString ''building/floor'')]"

definition example_sample :: csi_data_t where
  "example_sample = \<lparr>timestamp = 5, mac = [0, 17, 34, 51, 68, 85], rssi = - 45, len = 128\<rparr>"

definition example_env :: collaborators where
  "example_env =
     \<lparr>configTICK_RATE_HZ = 100,
      app_config_load = (ESP_OK, example_config),
      app_config_save = (\<lambda>c. ESP_OK),
      csi_collector_get_config =
        (ESP_OK, \<lparr>sample_rate = 100, buffer_size = 64, filter_enabled = False,
                  filter_threshold = 0\<rparr>),
      csi_collector_update_config = (\<lambda>c. ESP_OK),
      csi_collector_start = 0,
      csi_collector_stop = 259,
      csi_collector_is_running = True,
      csi_collector_get_stats =
        (ESP_OK, \<lparr>packets_received = 3, packets_processed = 2, packets_dropped = 1\<rparr>),
      csi_collector_get_data = (ESP_OK, example_sample),
      ntp_sync_is_synchronized = True,
      ntp_sync_get_time = (ESP_OK, \<lparr>tv_sec = 7, tv_usec = 9\<rparr>),
      mqtt_client_is_connected = True,
      mqtt_client_publish_csi_data = (\<lambda>d. - 1),
      mqtt_publish_alert = - 1,
      ota_updater_check_for_updates = ESP_OK,
      xTaskGetTickCount = 10,
      esp_timer_get_time = 2500000,
      esp_get_free_heap_size = 9999,
      esp_get_minimum_free_heap_size = 9000,
      uxTaskGetNumberOfTasks = 8\<rparr>"

definition example_state :: loop_state where
  "example_state =
     \<lparr>loop_counter = 0, csi_data_count = 0, mqtt_publish_count = 0,
      mqtt_publish_errors = 0, last_stats_time = 0, last_ota_check = 0,
      last_system_metrics = 0\<rparr>"

definition alert_level :: "event \<Rightarrow> string option" where
  "alert_level e = (case e of MqttPublishAlert d l c m \<Rightarrow> Some l | _ \<Rightarrow> None)"

definition failed_clock_env :: collaborators where
  "failed_clock_env = example_env\<lparr>ntp_sync_get_time := (- 1, \<lparr>tv_sec = 7, tv_usec = 9\<rparr>)\<rparr>"

definition healthy_env :: collaborators where
  "healthy_env = example_env\<lparr>esp_get_free_heap_size := 150000\<rparr>"






definition example_http_config :: http_telemetry_config_t where
  "example_http_config =
     \<lparr>server_url = ''http://192.168.1.100:3000'', device_id = ''node1'', auth_token = [],
      timeout_ms = 100, retry_count = 3, compress_data = False\<rparr>"

definition example_stats :: http_stats where
  "example_stats = \<lparr>requests_sent = 4, requests_failed = 1, bytes_sent = 512\<rparr>"

section \<open>Properties of remote\_config.c\<close>

lemma get_single_item: "cJSON_GetObjectItem (JObject [(k, x)]) k = Some x"
  by (simp add: cJSON_GetObjectItem_def)

lemma c_str_literals:
  "c_str ''reboot'' = ''reboot''" "c_str ''start_csi'' = ''start_csi''"
  "c_str ''stop_csi'' = ''stop_csi''" "c_str ''calibrate'' = ''calibrate''"
  "c_str ''get_status'' = ''get_status''"
  by (simp_all add: c_str_def NUL_def)

text \<open>
  C9: \<^verbatim>\<open>remote_command_handler\<close> returns \<^verbatim>\<open>ESP_ERR_INVALID_ARG\<close> when its argument is
  null or has no string-valued \<^verbatim>\<open>"command"\<close> member; it returns
  \<^verbatim>\<open>ESP_ERR_NOT_SUPPORTED\<close> for a command string outside the six known commands; for
  \<^verbatim>\<open>start_csi\<close> and \<^verbatim>\<open>stop_csi\<close> it returns what the collector returns; for
  \<^verbatim>\<open>calibrate\<close> and \<^verbatim>\<open>get_status\<close> it returns \<^verbatim>\<open>ESP_OK\<close>.
\<close>

theorem remote_command_handler_results:
  "(snd (remote_command_handler env None) = Returns ESP_ERR_INVALID_ARG) \<and>
   ((\<forall>s. cJSON_GetObjectItem params ''command'' \<noteq> Some (JString s)) \<longrightarrow>
      snd (remote_command_handler env (Some params)) = Returns ESP_ERR_INVALID_ARG) \<and>
   (cJSON_GetObjectItem params ''command'' = Some (JString s) \<longrightarrow>
      (c_str s \<notin> set known_commands \<longrightarrow>
         snd (remote_command_handler env (Some params)) = Returns ESP_ERR_NOT_SUPPORTED) \<and>
      (c_str s = ''start_csi'' \<longrightarrow>
         snd (remote_command_handler env (Some params)) = Returns (csi_collector_start env)) \<and>
      (c_str s = ''stop_csi'' \<longrightarrow>
         snd (remote_command_handler env (Some params)) = Returns (csi_collector_stop env)) \<and>
      (c_str s = ''calibrate'' \<longrightarrow>
         snd (remote_command_handler env (Some params)) = Returns ESP_OK) \<and>
      (c_str s = ''get_status'' \<longrightarrow>
         snd (remote_command_handler env (Some params)) = Returns ESP_OK))"
  by (auto simp: remote_command_handler_def known_commands_def Let_def
           split: option.splits cJSON.splits)

theorem remote_command_handler_results_witness:
  "snd (remote_command_handler example_env None) = Returns ESP_ERR_INVALID_ARG \<and>
   snd (remote_command_handler example_env (Some (JObject [(''command'', JNumber 1)])))
     = Returns ESP_ERR_INVALID_ARG \<and>
   snd (remote_command_handler example_env (Some (JObject [(''command'', JString ''reboot'')])))
     = Returns ESP_ERR_NOT_SUPPORTED \<and>
   snd (remote_command_handler example_env (Some (JObject [(''command'', JString ''start_csi'')])))
     = Returns 0 \<and>
   snd (remote_command_handler example_env (Some (JObject [(''command'', JString ''stop_csi'')])))
     = Returns 259 \<and>
   snd (remote_command_handler example_env (Some (JObject [(''command'', JString ''calibrate'')])))
     = Returns ESP_OK \<and>
   snd (remote_command_handler example_env (Some (JObject [(''command'', JString ''get_status'')])))
     = Returns ESP_OK"
  using remote_command_handler_results
          [of example_env "JObject [(''command'', JNumber 1)]" "''x''"]
        remote_command_handler_results
          [of example_env "JObject [(''command'', JString ''reboot'')]" "''reboot''"]
        remote_command_handler_results
          [of example_env "JObject [(''command'', JString ''start_csi'')]" "''start_csi''"]
        remote_command_handler_results
          [of example_env "JObject [(''command'', JString ''stop_csi'')]" "''stop_csi''"]
        remote_command_handler_results
          [of example_env "JObject [(''command'', JString ''calibrate'')]" "''calibrate''"]
        remote_command_handler_results
          [of example_env "JObject [(''command'', JString ''get_status'')]" "''get_status''"]
  by (simp add: get_single_item c_str_literals known_commands_def example_env_def)



lemma drop_to_last: "xs \<noteq> [] \<Longrightarrow> drop (length xs - Suc 0) xs = [last xs]"
  by (cases xs rule: rev_cases) simp_all

lemma strncpy_truncates:
  assumes "0 < length dest" and "length dest \<le> length (c_str src)"
  shows "strncpy dest src (length dest - 1) = take (length dest - 1) (c_str src) @ [last dest]"
proof -
  have "min (length dest - 1) (length (c_str src)) = length dest - 1"
    using assms by simp
  moreover have "drop (length dest - 1) dest = [last dest]"
    using assms(1) by (simp add: drop_to_last)
  ultimately show ?thesis
    by (simp add: strncpy_def Let_def)
qed

lemma strncpy_field:
  assumes "overlong src (length dest)"
  shows "strncpy dest src (length dest - Suc 0) = cut_to src (length dest) @ [last dest]"
  using assms strncpy_truncates [of dest src] by (simp add: overlong_def cut_to_def)

lemma strncpy_zeroed:
  assumes "overlong src n"
  shows "strncpy (replicate n NUL) src (n - Suc 0) = cut_to src n @ [NUL]"
  using assms strncpy_field [of src "replicate n NUL"] by (simp add: overlong_def)

lemma set_string_field_present:
  "cJSON_GetObjectItem config key = Some (JString s) \<Longrightarrow>
   set_string_field config key upd c = upd s c"
  by (simp add: set_string_field_def)

lemma set_string_field_keeps:
  "(\<And>s c. f (upd s c) = f c) \<Longrightarrow> f (set_string_field config key upd c) = f c"
  by (simp add: set_string_field_def split: option.splits cJSON.splits)

lemma set_number_field_keeps:
  "(\<And>r c. f (upd r c) = f c) \<Longrightarrow> f (set_number_field config key upd c) = f c"
  by (simp add: set_number_field_def split: option.splits cJSON.splits)

lemma handle_mqtt_config_saved:
  assumes "app_config_load env = (ESP_OK, cfg)"
  shows "saved_config (fst (handle_mqtt_config env config)) = Some (mqtt_update config cfg)"
    and "snd (handle_mqtt_config env config) = app_config_save env (mqtt_update config cfg)"
  using assms by (simp_all add: handle_mqtt_config_def Let_def)

lemma mqtt_settings_broker_url:
  assumes "cJSON_GetObjectItem config ''broker_url'' = Some (JString s)"
  shows "mqtt_broker_url (mqtt_update config cfg) =
           strncpy (mqtt_broker_url cfg) s (length (mqtt_broker_url cfg) - 1)"
  by (simp add: mqtt_update_def Let_def set_string_field_keeps set_number_field_keeps
        set_string_field_present [OF assms])

lemma mqtt_settings_topic_prefix:
  assumes "cJSON_GetObjectItem config ''topic_prefix'' = Some (JString s)"
  shows "mqtt_topic_prefix (mqtt_update config cfg) =
           strncpy (mqtt_topic_prefix cfg) s (length (mqtt_topic_prefix cfg) - 1)"
  by (simp add: mqtt_update_def Let_def set_string_field_present [OF assms]
        set_string_field_keeps set_number_field_keeps)

lemma handle_node_settings_saved:
  assumes "app_config_load env = (ESP_OK, cfg)"
  shows "saved_config (fst (handle_node_settings env config)) =
           Some (fst (wifi_update config (node_name_update config cfg, False)))"
    and "snd (handle_node_settings env config) = Restarts \<or>
         snd (handle_node_settings env config) =
           Returns (app_config_save env
                      (fst (wifi_update config (node_name_update config cfg, False))))"
  using assms by (auto simp: handle_node_settings_def Let_def split: prod.splits)

lemma node_name_update_device_name:
  assumes "cJSON_GetObjectItem config ''node_name'' = Some (JString s)"
  shows "device_name (node_name_update config cfg) =
           strncpy (device_name cfg) s (length (device_name cfg) - 1)"
  by (simp add: node_name_update_def set_string_field_present [OF assms])

lemma node_name_update_wifi:
  "wifi_ssid (node_name_update config cfg) = wifi_ssid cfg"
  "wifi_password (node_name_update config cfg) = wifi_password cfg"
  by (simp_all add: node_name_update_def set_string_field_keeps)

lemma wifi_update_device_name: "device_name (fst (wifi_update config (c, r))) = device_name c"
  by (auto simp: wifi_update_def set_string_field_def Let_def
           split: option.splits cJSON.splits)

lemma wifi_update_ssid:
  assumes "cJSON_GetObjectItem config ''wifi'' = Some wifi"
      and "cJSON_GetObjectItem wifi ''ssid'' = Some (JString s)"
  shows "wifi_ssid (fst (wifi_update config (c, r))) =
           strncpy (wifi_ssid c) s (length (wifi_ssid c) - 1)"
proof -
  have "wifi_ssid (fst (set_string_field wifi ''password''
               (\<lambda>s (c, r). (c\<lparr>wifi_password :=
                   strncpy (wifi_password c) s (length (wifi_password c) - 1)\<rparr>, True)) st)) =
        wifi_ssid (fst st)" for st :: "app_config_t \<times> bool"
    by (rule set_string_field_keeps [where f = "\<lambda>p. wifi_ssid (fst p)"]) (simp split: prod.splits)
  then show ?thesis
    by (simp add: wifi_update_def assms(1) set_string_field_present [OF assms(2)] Let_def)
qed

lemma wifi_update_password:
  assumes "cJSON_GetObjectItem config ''wifi'' = Some wifi"
      and "cJSON_GetObjectItem wifi ''password'' = Some (JString s)"
  shows "wifi_password (fst (wifi_update config (c, r))) =
           strncpy (wifi_password c) s (length (wifi_password c) - 1)"
proof -
  have "wifi_password (fst (set_string_field wifi ''ssid''
               (\<lambda>s (c, r). (c\<lparr>wifi_ssid :=
                   strncpy (wifi_ssid c) s (length (wifi_ssid c) - 1)\<rparr>, True)) st)) =
        wifi_password (fst st)" for st :: "app_config_t \<times> bool"
    by (rule set_string_field_keeps [where f = "\<lambda>p. wifi_password (fst p)"])
       (simp split: prod.splits)
  then show ?thesis
    by (simp add: wifi_update_def assms(1) set_string_field_present [OF assms(2)] Let_def
          case_prod_beta)
qed


lemma lookups_long_node_update:
  "cJSON_GetObjectItem long_node_update ''node_name'' = Some (JString ''averyverylongname'')"
  "cJSON_GetObjectItem long_node_update ''wifi'' =
     Some (JObject [(''ssid'', JString ''averyverylongssid''),
                    (''password'', JString ''averyverylongpassword'')])"
  "cJSON_GetObjectItem (JObject [(''ssid'', JString ''averyverylongssid''),
                                 (''password'', JString ''averyverylongpassword'')]) ''ssid'' =
     Some (JString ''averyverylongssid'')"
  "cJSON_GetObjectItem (JObject [(''ssid'', JString ''averyverylongssid''),
                                 (''password'', JString ''averyverylongpassword'')]) ''password'' =
     Some (JString ''averyverylongpassword'')"
  "cJSON_GetObjectItem long_mqtt_update ''broker_url'' =
     Some (JString ''mqtt://broker.example.com'')"
  "cJSON_GetObjectItem long_mqtt_update ''topic_prefix'' = Some (JString ''building/floor'')"
  by code_simp+

text \<open>
  C8: every configuration string that is over-long for its fixed-capacity destination is
  cut_to by the bounded copy \<^verbatim>\<open>strncpy(dest, src, sizeof(dest) - 1)\<close>, and no error comes
  of it. At start-up (main.c) the web server's user name and password, the three NTP
  server names, the MQTT broker URL, user name, password, client id and topic prefix,
  and the update URL each arrive as their first \<open>sizeof - 1\<close> characters in a zeroed
  member. In remote\_config.c the MQTT broker URL and topic prefix, the node name and
  the WiFi SSID and password are saved as their first \<open>sizeof - 1\<close> characters,
  followed by the last byte the field had; \<^verbatim>\<open>handle_mqtt_config\<close> returns what the
  save returns, and \<^verbatim>\<open>handle_node_settings\<close> returns it or restarts.
\<close>

theorem config_string_truncated_silently:
  "(overlong (web_server_username config) (sizeof_web_username sz) \<longrightarrow>
      web_username (fst (startup_configs sz config)) =
        cut_to (web_server_username config) (sizeof_web_username sz) @ [NUL]) \<and>
   (overlong (web_server_password config) (sizeof_web_password sz) \<longrightarrow>
      web_password (fst (startup_configs sz config)) =
        cut_to (web_server_password config) (sizeof_web_password sz) @ [NUL]) \<and>
   (ntp_enabled config \<and> overlong (ntp_server1 config) (sizeof_ntp_server1 sz) \<longrightarrow>
      map_option ntp_cfg_server1 (fst (snd (startup_configs sz config))) =
        Some (cut_to (ntp_server1 config) (sizeof_ntp_server1 sz) @ [NUL])) \<and>
   (ntp_enabled config \<and> overlong (ntp_server2 config) (sizeof_ntp_server2 sz) \<longrightarrow>
      map_option ntp_cfg_server2 (fst (snd (startup_configs sz config))) =
        Some (cut_to (ntp_server2 config) (sizeof_ntp_server2 sz) @ [NUL])) \<and>
   (ntp_enabled config \<and> overlong (ntp_server3 config) (sizeof_ntp_server3 sz) \<longrightarrow>
      map_option ntp_cfg_server3 (fst (snd (startup_configs sz config))) =
        Some (cut_to (ntp_server3 config) (sizeof_ntp_server3 sz) @ [NUL])) \<and>
   (mqtt_enabled config \<and> overlong (mqtt_broker_url config) (sizeof_mqtt_broker_url sz) \<longrightarrow>
      map_option mqtt_cfg_broker_url (fst (snd (snd (startup_configs sz config)))) =
        Some (cut_to (mqtt_broker_url config) (sizeof_mqtt_broker_url sz) @ [NUL])) \<and>
   (mqtt_enabled config \<and> overlong (mqtt_username config) (sizeof_mqtt_username sz) \<longrightarrow>
      map_option mqtt_cfg_username (fst (snd (snd (startup_configs sz config)))) =
        Some (cut_to (mqtt_username config) (sizeof_mqtt_username sz) @ [NUL])) \<and>
   (mqtt_enabled config \<and> overlong (mqtt_password config) (sizeof_mqtt_password sz) \<longrightarrow>
      map_option mqtt_cfg_password (fst (snd (snd (startup_configs sz config)))) =
        Some (cut_to (mqtt_password config) (sizeof_mqtt_password sz) @ [NUL])) \<and>
   (mqtt_enabled config \<and> overlong (mqtt_client_id config) (sizeof_mqtt_client_id sz) \<longrightarrow>
      map_option mqtt_cfg_client_id (fst (snd (snd (startup_configs sz config)))) =
        Some (cut_to (mqtt_client_id config) (sizeof_mqtt_client_id sz) @ [NUL])) \<and>
   (mqtt_enabled config \<and>
    overlong (mqtt_topic_prefix config) (sizeof_mqtt_topic_prefix sz) \<longrightarrow>
      map_option mqtt_cfg_topic_prefix (fst (snd (snd (startup_configs sz config)))) =
        Some (cut_to (mqtt_topic_prefix config) (sizeof_mqtt_topic_prefix sz) @ [NUL])) \<and>
   (overlong (ota_update_url config) (sizeof_ota_server_url sz) \<longrightarrow>
      ota_cfg_server_url (snd (snd (snd (startup_configs sz config)))) =
        cut_to (ota_update_url config) (sizeof_ota_server_url sz) @ [NUL]) \<and>
   (app_config_load env = (ESP_OK, cfg) \<longrightarrow>
      (\<exists>c. saved_config (fst (handle_mqtt_config env json)) = Some c \<and>
           snd (handle_mqtt_config env json) = app_config_save env c)) \<and>
   (app_config_load env = (ESP_OK, cfg) \<and>
    cJSON_GetObjectItem json ''broker_url'' = Some (JString s) \<and>
    overlong s (length (mqtt_broker_url cfg)) \<longrightarrow>
      map_option mqtt_broker_url (saved_config (fst (handle_mqtt_config env json))) =
        Some (cut_to s (length (mqtt_broker_url cfg)) @ [last (mqtt_broker_url cfg)])) \<and>
   (app_config_load env = (ESP_OK, cfg) \<and>
    cJSON_GetObjectItem json ''topic_prefix'' = Some (JString s) \<and>
    overlong s (length (mqtt_topic_prefix cfg)) \<longrightarrow>
      map_option mqtt_topic_prefix (saved_config (fst (handle_mqtt_config env json))) =
        Some (cut_to s (length (mqtt_topic_prefix cfg)) @ [last (mqtt_topic_prefix cfg)])) \<and>
   (app_config_load env = (ESP_OK, cfg) \<longrightarrow>
      (\<exists>c. saved_config (fst (handle_node_settings env json)) = Some c \<and>
           (snd (handle_node_settings env json) = Restarts \<or>
            snd (handle_node_settings env json) = Returns (app_config_save env c)))) \<and>
   (app_config_load env = (ESP_OK, cfg) \<and>
    cJSON_GetObjectItem json ''node_name'' = Some (JString s) \<and>
    overlong s (length (device_name cfg)) \<longrightarrow>
      map_option device_name (saved_config (fst (handle_node_settings env json))) =
        Some (cut_to s (length (device_name cfg)) @ [last (device_name cfg)])) \<and>
   (app_config_load env = (ESP_OK, cfg) \<and>
    cJSON_GetObjectItem json ''wifi'' = Some wifi \<and>
    cJSON_GetObjectItem wifi ''ssid'' = Some (JString s) \<and>
    overlong s (length (wifi_ssid cfg)) \<longrightarrow>
      map_option wifi_ssid (saved_config (fst (handle_node_settings env json))) =
        Some (cut_to s (length (wifi_ssid cfg)) @ [last (wifi_ssid cfg)])) \<and>
   (app_config_load env = (ESP_OK, cfg) \<and>
    cJSON_GetObjectItem json ''wifi'' = Some wifi \<and>
    cJSON_GetObjectItem wifi ''password'' = Some (JString s) \<and>
    overlong s (length (wifi_password cfg)) \<longrightarrow>
      map_option wifi_password (saved_config (fst (handle_node_settings env json))) =
        Some (cut_to s (length (wifi_password cfg)) @ [last (wifi_password cfg)]))"
proof (intro conjI impI; (elim conjE)?)
  show "web_username (fst (startup_configs sz config)) =
          cut_to (web_server_username config) (sizeof_web_username sz) @ [NUL]"
    if "overlong (web_server_username config) (sizeof_web_username sz)"
    using that by (simp add: startup_configs_def web_config_of_def strncpy_zeroed)
  show "web_password (fst (startup_configs sz config)) =
          cut_to (web_server_password config) (sizeof_web_password sz) @ [NUL]"
    if "overlong (web_server_password config) (sizeof_web_password sz)"
    using that by (simp add: startup_configs_def web_config_of_def strncpy_zeroed)
  show "map_option ntp_cfg_server1 (fst (snd (startup_configs sz config))) =
          Some (cut_to (ntp_server1 config) (sizeof_ntp_server1 sz) @ [NUL])"
    if "ntp_enabled config" "overlong (ntp_server1 config) (sizeof_ntp_server1 sz)"
    using that by (simp add: startup_configs_def ntp_config_of_def strncpy_zeroed)
  show "map_option ntp_cfg_server2 (fst (snd (startup_configs sz config))) =
          Some (cut_to (ntp_server2 config) (sizeof_ntp_server2 sz) @ [NUL])"
    if "ntp_enabled config" "overlong (ntp_server2 config) (sizeof_ntp_server2 sz)"
    using that by (simp add: startup_configs_def ntp_config_of_def strncpy_zeroed)
  show "map_option ntp_cfg_server3 (fst (snd (startup_configs sz config))) =
          Some (cut_to (ntp_server3 config) (sizeof_ntp_server3 sz) @ [NUL])"
    if "ntp_enabled config" "overlong (ntp_server3 config) (sizeof_ntp_server3 sz)"
    using that by (simp add: startup_configs_def ntp_config_of_def strncpy_zeroed)
  show "map_option mqtt_cfg_broker_url (fst (snd (snd (startup_configs sz config)))) =
          Some (cut_to (mqtt_broker_url config) (sizeof_mqtt_broker_url sz) @ [NUL])"
    if "mqtt_enabled config" "overlong (mqtt_broker_url config) (sizeof_mqtt_broker_url sz)"
    using that by (simp add: startup_configs_def mqtt_config_of_def strncpy_zeroed)
  show "map_option mqtt_cfg_username (fst (snd (snd (startup_configs sz config)))) =
          Some (cut_to (mqtt_username config) (sizeof_mqtt_username sz) @ [NUL])"
    if "mqtt_enabled config" "overlong (mqtt_username config) (sizeof_mqtt_username sz)"
    using that by (simp add: startup_configs_def mqtt_config_of_def strncpy_zeroed)
  show "map_option mqtt_cfg_password (fst (snd (snd (startup_configs sz config)))) =
          Some (cut_to (mqtt_password config) (sizeof_mqtt_password sz) @ [NUL])"
    if "mqtt_enabled config" "overlong (mqtt_password config) (sizeof_mqtt_password sz)"
    using that by (simp add: startup_configs_def mqtt_config_of_def strncpy_zeroed)
  show "map_option mqtt_cfg_client_id (fst (snd (snd (startup_configs sz config)))) =
          Some (cut_to (mqtt_client_id config) (sizeof_mqtt_client_id sz) @ [NUL])"
    if "mqtt_enabled config" "overlong (mqtt_client_id config) (sizeof_mqtt_client_id sz)"
    using that by (simp add: startup_configs_def mqtt_config_of_def strncpy_zeroed)
  show "map_option mqtt_cfg_topic_prefix (fst (snd (snd (startup_configs sz config)))) =
          Some (cut_to (mqtt_topic_prefix config) (sizeof_mqtt_topic_prefix sz) @ [NUL])"
    if "mqtt_enabled config" "overlong (mqtt_topic_prefix config) (sizeof_mqtt_topic_prefix sz)"
    using that by (simp add: startup_configs_def mqtt_config_of_def strncpy_zeroed)
  show "ota_cfg_server_url (snd (snd (snd (startup_configs sz config)))) =
          cut_to (ota_update_url config) (sizeof_ota_server_url sz) @ [NUL]"
    if "overlong (ota_update_url config) (sizeof_ota_server_url sz)"
    using that by (simp add: startup_configs_def ota_config_of_def strncpy_zeroed)
  show "\<exists>c. saved_config (fst (handle_mqtt_config env json)) = Some c \<and>
           snd (handle_mqtt_config env json) = app_config_save env c"
    if "app_config_load env = (ESP_OK, cfg)"
    using handle_mqtt_config_saved [OF that] by blast
  show "map_option mqtt_broker_url (saved_config (fst (handle_mqtt_config env json))) =
          Some (cut_to s (length (mqtt_broker_url cfg)) @ [last (mqtt_broker_url cfg)])"
    if "app_config_load env = (ESP_OK, cfg)"
      "cJSON_GetObjectItem json ''broker_url'' = Some (JString s)"
      "overlong s (length (mqtt_broker_url cfg))"
    using that
    by (simp add: handle_mqtt_config_saved mqtt_settings_broker_url strncpy_field)
  show "map_option mqtt_topic_prefix (saved_config (fst (handle_mqtt_config env json))) =
          Some (cut_to s (length (mqtt_topic_prefix cfg)) @ [last (mqtt_topic_prefix cfg)])"
    if "app_config_load env = (ESP_OK, cfg)"
      "cJSON_GetObjectItem json ''topic_prefix'' = Some (JString s)"
      "overlong s (length (mqtt_topic_prefix cfg))"
    using that
    by (simp add: handle_mqtt_config_saved mqtt_settings_topic_prefix strncpy_field)
  show "\<exists>c. saved_config (fst (handle_node_settings env json)) = Some c \<and>
           (snd (handle_node_settings env json) = Restarts \<or>
            snd (handle_node_settings env json) = Returns (app_config_save env c))"
    if "app_config_load env = (ESP_OK, cfg)"
    using handle_node_settings_saved [OF that] by blast
  show "map_option device_name (saved_config (fst (handle_node_settings env json))) =
          Some (cut_to s (length (device_name cfg)) @ [last (device_name cfg)])"
    if "app_config_load env = (ESP_OK, cfg)"
      "cJSON_GetObjectItem json ''node_name'' = Some (JString s)"
      "overlong s (length (device_name cfg))"
    using that
    by (simp add: handle_node_settings_saved wifi_update_device_name
          node_name_update_device_name strncpy_field)
  show "map_option wifi_ssid (saved_config (fst (handle_node_settings env json))) =
          Some (cut_to s (length (wifi_ssid cfg)) @ [last (wifi_ssid cfg)])"
    if "app_config_load env = (ESP_OK, cfg)"
      "cJSON_GetObjectItem json ''wifi'' = Some wifi"
      "cJSON_GetObjectItem wifi ''ssid'' = Some (JString s)"
      "overlong s (length (wifi_ssid cfg))"
    using that wifi_update_ssid [OF that(2,3)]
    by (simp add: handle_node_settings_saved node_name_update_wifi strncpy_field)
  show "map_option wifi_password (saved_config (fst (handle_node_settings env json))) =
          Some (cut_to s (length (wifi_password cfg)) @ [last (wifi_password cfg)])"
    if "app_config_load env = (ESP_OK, cfg)"
      "cJSON_GetObjectItem json ''wifi'' = Some wifi"
      "cJSON_GetObjectItem wifi ''password'' = Some (JString s)"
      "overlong s (length (wifi_password cfg))"
    using that wifi_update_password [OF that(2,3)]
    by (simp add: handle_node_settings_saved node_name_update_wifi strncpy_field)
qed


theorem config_string_truncated_silently_witness:
  "web_username (fst (startup_configs four_byte_members example_config)) = ''adm'' @ [NUL] \<and>
   web_password (fst (startup_configs four_byte_members example_config)) = ''pas'' @ [NUL] \<and>
   map_option ntp_cfg_server1 (fst (snd (startup_configs four_byte_members example_config))) =
     Some (''poo'' @ [NUL]) \<and>
   map_option ntp_cfg_server2 (fst (snd (startup_configs four_byte_members example_config))) =
     Some (''tim'' @ [NUL]) \<and>
   map_option ntp_cfg_server3 (fst (snd (startup_configs four_byte_members example_config))) =
     Some (''tim'' @ [NUL]) \<and>
   map_option mqtt_cfg_broker_url
     (fst (snd (snd (startup_configs four_byte_members example_config)))) =
     Some (''mqt'' @ [NUL]) \<and>
   map_option mqtt_cfg_username
     (fst (snd (snd (startup_configs four_byte_members example_config)))) =
     Some (''use'' @ [NUL]) \<and>
   map_option mqtt_cfg_password
     (fst (snd (snd (startup_configs four_byte_members example_config)))) =
     Some (''pas'' @ [NUL]) \<and>
   map_option mqtt_cfg_client_id
     (fst (snd (snd (startup_configs four_byte_members example_config)))) =
     Some (''esp'' @ [NUL]) \<and>
   map_option mqtt_cfg_topic_prefix
     (fst (snd (snd (startup_configs four_byte_members example_config)))) =
     Some (''csi'' @ [NUL]) \<and>
   ota_cfg_server_url (snd (snd (snd (startup_configs four_byte_members example_config)))) =
     ''htt'' @ [NUL] \<and>
   snd (handle_mqtt_config example_env long_mqtt_update) = ESP_OK \<and>
   map_option mqtt_broker_url (saved_config (fst (handle_mqtt_config example_env long_mqtt_update))) =
     Some (''mqtt://brok'' @ [NUL]) \<and>
   map_option mqtt_topic_prefix
     (saved_config (fst (handle_mqtt_config example_env long_mqtt_update))) =
     Some (''buildin'' @ [NUL]) \<and>
   (snd (handle_node_settings example_env long_node_update) = Restarts \<or>
    snd (handle_node_settings example_env long_node_update) = Returns ESP_OK) \<and>
   map_option device_name (saved_config (fst (handle_node_settings example_env long_node_update))) =
     Some (''averyve'' @ [NUL]) \<and>
   map_option wifi_ssid (saved_config (fst (handle_node_settings example_env long_node_update))) =
     Some (''averyve'' @ [NUL]) \<and>
   map_option wifi_password
     (saved_config (fst (handle_node_settings example_env long_node_update))) =
     Some (''averyve'' @ [NUL])"
proof -
  let ?wifi = "JObject [(''ssid'', JString ''averyverylongssid''),
                        (''password'', JString ''averyverylongpassword'')]"
  have load: "app_config_load example_env = (ESP_OK, example_config)"
    and save: "app_config_save example_env = (\<lambda>c. ESP_OK)"
    by (simp_all add: example_env_def)
  note defs = overlong_def cut_to_def c_str_def NUL_def example_config_def four_byte_members_def
  show ?thesis
    using config_string_truncated_silently
            [of example_config four_byte_members example_env example_config long_mqtt_update
                "''mqtt://broker.example.com''" ?wifi]
          config_string_truncated_silently
            [of example_config four_byte_members example_env example_config long_mqtt_update
                "''building/floor''" ?wifi]
          config_string_truncated_silently
            [of example_config four_byte_members example_env example_config long_node_update
                "''averyverylongname''" ?wifi]
          config_string_truncated_silently
            [of example_config four_byte_members example_env example_config long_node_update
                "''averyverylongssid''" ?wifi]
          config_string_truncated_silently
            [of example_config four_byte_members example_env example_config long_node_update
                "''averyverylongpassword''" ?wifi]
    by (auto simp: load save lookups_long_node_update defs)
qed

lemma wifi_update_restart:
  assumes "cJSON_GetObjectItem node ''wifi'' = Some wifi"
      and "cJSON_GetObjectItem wifi ''ssid'' = Some (JString s) \<or>
           cJSON_GetObjectItem wifi ''password'' = Some (JString s)"
  shows "snd (wifi_update node (c, r))"
  using assms
  by (auto simp: wifi_update_def set_string_field_def Let_def
           split: option.splits cJSON.splits prod.splits)

lemma handle_csi_config_no_publish:
  "filter is_mqtt_publish (fst (handle_csi_config env c)) = []"
  by (simp add: handle_csi_config_def is_mqtt_publish_def Let_def split: prod.splits)

lemma handle_mqtt_config_no_publish:
  "filter is_mqtt_publish (fst (handle_mqtt_config env c)) = []"
  by (simp add: handle_mqtt_config_def is_mqtt_publish_def Let_def split: prod.splits)

lemma handle_node_settings_restarts:
  assumes "cJSON_GetObjectItem node ''wifi'' = Some wifi"
      and "cJSON_GetObjectItem wifi ''ssid'' = Some (JString s) \<or>
           cJSON_GetObjectItem wifi ''password'' = Some (JString s)"
      and "app_config_load env = (ESP_OK, cfg)"
      and "app_config_save env (fst (wifi_update node (node_name_update node cfg, False))) = ESP_OK"
  shows "handle_node_settings env node =
           ([AppConfigSave (fst (wifi_update node (node_name_update node cfg, False))),
             VTaskDelay (pdMS_TO_TICKS (configTICK_RATE_HZ env) 5000), EspRestart], Restarts)"
  using assms(3,4) wifi_update_restart [OF assms(1,2), of "node_name_update node cfg" False]
  by (auto simp: handle_node_settings_def Let_def split: prod.splits)

text \<open>
  C10: when the node section of a configuration update carries a WiFi SSID or password
  string, the configuration loads and the save succeeds, \<^verbatim>\<open>handle_node_settings\<close>
  delays 5000 ms and restarts the device, so \<^verbatim>\<open>remote_config_update_handler\<close> never
  returns and never publishes its acknowledgement.
\<close>

theorem wifi_change_restarts_before_ack:
  assumes "cJSON_GetObjectItem config ''node'' = Some node"
      and "cJSON_GetObjectItem node ''wifi'' = Some wifi"
      and "cJSON_GetObjectItem wifi ''ssid'' = Some (JString s) \<or>
           cJSON_GetObjectItem wifi ''password'' = Some (JString s)"
      and "app_config_load env = (ESP_OK, cfg)"
      and "app_config_save env (fst (wifi_update node (node_name_update node cfg, False))) = ESP_OK"
  shows "snd (remote_config_update_handler env (Some config)) = Restarts \<and>
         filter is_mqtt_publish (fst (remote_config_update_handler env (Some config))) = [] \<and>
         (\<exists>evs. fst (remote_config_update_handler env (Some config)) =
                  evs @ [VTaskDelay (pdMS_TO_TICKS (configTICK_RATE_HZ env) 5000), EspRestart])"
proof -
  let ?saved = "AppConfigSave (fst (wifi_update node (node_name_update node cfg, False)))"
  let ?tail = "[VTaskDelay (pdMS_TO_TICKS (configTICK_RATE_HZ env) 5000), EspRestart]"
  have n: "handle_node_settings env node = (?saved # ?tail, Restarts)"
    using handle_node_settings_restarts [OF assms(2-5)] by simp
  obtain ev1 err1 where e1:
    "(case cJSON_GetObjectItem config ''csi'' of
        Some csi \<Rightarrow> handle_csi_config env csi | None \<Rightarrow> ([], ESP_OK)) = (ev1, err1)"
    by (cases "case cJSON_GetObjectItem config ''csi'' of
        Some csi \<Rightarrow> handle_csi_config env csi | None \<Rightarrow> ([], ESP_OK)") blast
  obtain ev2 err2 where e2:
    "(case cJSON_GetObjectItem config ''mqtt'' of
        Some mqtt \<Rightarrow> handle_mqtt_config env mqtt | None \<Rightarrow> ([], err1)) = (ev2, err2)"
    by (cases "case cJSON_GetObjectItem config ''mqtt'' of
        Some mqtt \<Rightarrow> handle_mqtt_config env mqtt | None \<Rightarrow> ([], err1)") blast
  have r: "remote_config_update_handler env (Some config) = (ev1 @ ev2 @ ?saved # ?tail, Restarts)"
    using assms(1) n e1 e2 by (simp add: remote_config_update_handler_def)
  have p1: "filter is_mqtt_publish ev1 = []"
    using e1 handle_csi_config_no_publish [of env]
    by (auto split: option.splits) (metis fst_conv)
  have p2: "filter is_mqtt_publish ev2 = []"
    using e2 handle_mqtt_config_no_publish [of env]
    by (auto split: option.splits) (metis fst_conv)
  have "fst (remote_config_update_handler env (Some config)) = (ev1 @ ev2 @ [?saved]) @ ?tail"
    using r by simp
  then have "\<exists>evs. fst (remote_config_update_handler env (Some config)) = evs @ ?tail"
    by blast
  with r p1 p2 show ?thesis
    by (simp add: is_mqtt_publish_def)
qed


theorem wifi_change_restarts_before_ack_witness:
  "snd (remote_config_update_handler example_env
          (Some (JObject [(''node'', JObject [(''wifi'', JObject [(''ssid'', JString ''net'')])])])))
     = Restarts \<and>
   filter is_mqtt_publish
     (fst (remote_config_update_handler example_env
          (Some (JObject [(''node'', JObject [(''wifi'', JObject [(''ssid'', JString ''net'')])])]))))
     = [] \<and>
   (\<exists>evs. fst (remote_config_update_handler example_env
          (Some (JObject [(''node'', JObject [(''wifi'', JObject [(''ssid'', JString ''net'')])])])))
     = evs @ [VTaskDelay 500, EspRestart])"
proof -
  let ?wifi = "JObject [(''ssid'', JString ''net'')]"
  let ?node = "JObject [(''wifi'', ?wifi)]"
  let ?config = "JObject [(''node'', ?node)]"
  have h1: "cJSON_GetObjectItem ?config ''node'' = Some ?node"
    and h2: "cJSON_GetObjectItem ?node ''wifi'' = Some ?wifi"
    and h3: "cJSON_GetObjectItem ?wifi ''ssid'' = Some (JString ''net'') \<or>
             cJSON_GetObjectItem ?wifi ''password'' = Some (JString ''net'')"
    by (simp_all add: get_single_item)
  have h4: "app_config_load example_env = (ESP_OK, example_config)"
    by (simp add: example_env_def)
  have h5: "app_config_save example_env
              (fst (wifi_update ?node (node_name_update ?node example_config, False))) = ESP_OK"
    by (simp add: example_env_def)
  have ticks: "pdMS_TO_TICKS (configTICK_RATE_HZ example_env) 5000 = 500"
    by (simp add: example_env_def pdMS_TO_TICKS_def)
  show ?thesis
    using wifi_change_restarts_before_ack [OF h1 h2 h3 h4 h5]
    by (simp add: ticks)
qed


section \<open>Properties of the loop of main.c\<close>


lemmas event_filters = is_restart_def is_alert_def is_get_data_def is_publish_csi_def
  is_free_data_def

lemma process_csi_events:
  "fst (process_csi env st) =
     (if csi_collector_is_running env
      then CsiCollectorGetData (pdMS_TO_TICKS (configTICK_RATE_HZ env) 100) #
           (if fst (csi_collector_get_data env) = ESP_OK
            then (if mqtt_client_is_connected env
                  then [MqttClientPublishCsiData
                          (correct_timestamp env (snd (csi_collector_get_data env)))]
                  else []) @
                 [CsiCollectorFreeData (correct_timestamp env (snd (csi_collector_get_data env)))]
            else [])
      else [])"
  by (simp add: process_csi_def Let_def split: prod.splits)

lemma periodic_events:
  "filter is_get_data (fst (periodic env config st)) = []"
  "filter is_publish_csi (fst (periodic env config st)) = []"
  "filter is_free_data (fst (periodic env config st)) = []"
  "filter is_alert (fst (periodic env config st)) = []"
  "filter is_restart (fst (periodic env config st)) = []"
  by (simp_all add: periodic_def Let_def event_filters split: prod.splits)

lemma loop_iteration_events:
  "fst (loop_iteration config env st) =
     fst (process_csi env (st\<lparr>loop_counter := loop_counter st + 1\<rparr>)) @
     fst (periodic env config (snd (process_csi env (st\<lparr>loop_counter := loop_counter st + 1\<rparr>)))) @
     (if esp_get_free_heap_size env < 10000
      then [MqttPublishAlert (c_str (device_name config)) ''ERROR'' ''SYSTEM''
              ''Critical low memory'',
            VTaskDelay (pdMS_TO_TICKS (configTICK_RATE_HZ env) 5000), EspRestart]
      else [VTaskDelay (pdMS_TO_TICKS (configTICK_RATE_HZ env) 100)])"
  by (simp add: loop_iteration_def health_guard_def Let_def split: prod.splits)

lemma loop_iteration_outcome:
  "snd (loop_iteration config env st) =
     (if esp_get_free_heap_size env < 10000 then Restarts
      else Returns (snd (periodic env config
                      (snd (process_csi env (st\<lparr>loop_counter := loop_counter st + 1\<rparr>))))))"
  by (simp add: loop_iteration_def health_guard_def Let_def split: prod.splits)

text \<open>
  C7: a sample the loop has drained is published to the MQTT channel exactly when the
  channel reports connected, once and never again (nothing of the sample is kept in
  the loop's state); a failed publication adds one to the error counter; and whether
  the publication succeeded, failed or was skipped, the sample is released to the
  collector exactly once, after the publication. An iteration that drained nothing
  neither publishes nor releases.
\<close>

theorem drained_sample_sent_once_released_once:
  "fst (process_csi env st) =
     (if csi_collector_is_running env \<and> fst (csi_collector_get_data env) = ESP_OK
      then [CsiCollectorGetData (pdMS_TO_TICKS (configTICK_RATE_HZ env) 100)] @
           (if mqtt_client_is_connected env
            then [MqttClientPublishCsiData
                    (correct_timestamp env (snd (csi_collector_get_data env)))]
            else []) @
           [CsiCollectorFreeData (correct_timestamp env (snd (csi_collector_get_data env)))]
      else if csi_collector_is_running env
      then [CsiCollectorGetData (pdMS_TO_TICKS (configTICK_RATE_HZ env) 100)]
      else []) \<and>
   filter is_publish_csi (fst (loop_iteration config env st)) =
     (if csi_collector_is_running env \<and> fst (csi_collector_get_data env) = ESP_OK \<and>
         mqtt_client_is_connected env
      then [MqttClientPublishCsiData (correct_timestamp env (snd (csi_collector_get_data env)))]
      else []) \<and>
   filter is_free_data (fst (loop_iteration config env st)) =
     (if csi_collector_is_running env \<and> fst (csi_collector_get_data env) = ESP_OK
      then [CsiCollectorFreeData (correct_timestamp env (snd (csi_collector_get_data env)))]
      else []) \<and>
   mqtt_publish_errors (snd (process_csi env st)) =
     (if csi_collector_is_running env \<and> fst (csi_collector_get_data env) = ESP_OK \<and>
         mqtt_client_is_connected env \<and>
         mqtt_client_publish_csi_data env
           (correct_timestamp env (snd (csi_collector_get_data env))) \<noteq> ESP_OK
      then mqtt_publish_errors st + 1 else mqtt_publish_errors st)"
proof (intro conjI)
  show "fst (process_csi env st) =
     (if csi_collector_is_running env \<and> fst (csi_collector_get_data env) = ESP_OK
      then [CsiCollectorGetData (pdMS_TO_TICKS (configTICK_RATE_HZ env) 100)] @
           (if mqtt_client_is_connected env
            then [MqttClientPublishCsiData
                    (correct_timestamp env (snd (csi_collector_get_data env)))]
            else []) @
           [CsiCollectorFreeData (correct_timestamp env (snd (csi_collector_get_data env)))]
      else if csi_collector_is_running env
      then [CsiCollectorGetData (pdMS_TO_TICKS (configTICK_RATE_HZ env) 100)]
      else [])"
    by (simp add: process_csi_events)
  show "filter is_publish_csi (fst (loop_iteration config env st)) =
     (if csi_collector_is_running env \<and> fst (csi_collector_get_data env) = ESP_OK \<and>
         mqtt_client_is_connected env
      then [MqttClientPublishCsiData (correct_timestamp env (snd (csi_collector_get_data env)))]
      else [])"
    by (simp add: loop_iteration_events periodic_events process_csi_events event_filters)
  show "filter is_free_data (fst (loop_iteration config env st)) =
     (if csi_collector_is_running env \<and> fst (csi_collector_get_data env) = ESP_OK
      then [CsiCollectorFreeData (correct_timestamp env (snd (csi_collector_get_data env)))]
      else [])"
    by (simp add: loop_iteration_events periodic_events process_csi_events event_filters)
  show "mqtt_publish_errors (snd (process_csi env st)) =
     (if csi_collector_is_running env \<and> fst (csi_collector_get_data env) = ESP_OK \<and>
         mqtt_client_is_connected env \<and>
         mqtt_client_publish_csi_data env
           (correct_timestamp env (snd (csi_collector_get_data env))) \<noteq> ESP_OK
      then mqtt_publish_errors st + 1 else mqtt_publish_errors st)"
    by (simp add: process_csi_def Let_def split: prod.splits)
qed

theorem drained_sample_sent_once_released_once_witness:
  "fst (process_csi example_env example_state) =
     [CsiCollectorGetData 10,
      MqttClientPublishCsiData (example_sample\<lparr>timestamp := 7000009\<rparr>),
      CsiCollectorFreeData (example_sample\<lparr>timestamp := 7000009\<rparr>)] \<and>
   filter is_publish_csi (fst (loop_iteration example_config example_env example_state)) =
     [MqttClientPublishCsiData (example_sample\<lparr>timestamp := 7000009\<rparr>)] \<and>
   filter is_free_data (fst (loop_iteration example_config example_env example_state)) =
     [CsiCollectorFreeData (example_sample\<lparr>timestamp := 7000009\<rparr>)] \<and>
   mqtt_publish_errors (snd (process_csi example_env example_state)) = 1"
  using drained_sample_sent_once_released_once [of example_env example_state example_config]
  by (simp add: example_env_def example_state_def correct_timestamp_def clock_timestamp_def
        pdMS_TO_TICKS_def ESP_OK_def)

text \<open>
  C6, as the code has it: every iteration asks the collector for at most one sample,
  with a wait of \<^verbatim>\<open>pdMS_TO_TICKS(100)\<close>, and the drained sample carries the clock's
  time exactly when the clock reports synchronized and \<^verbatim>\<open>ntp_sync_get_time\<close>
  returns \<^verbatim>\<open>ESP_OK\<close>; otherwise it keeps the collector's timestamp.
\<close>

theorem one_bounded_pop_and_timestamp_rule:
  "filter is_get_data (fst (loop_iteration config env st)) =
     (if csi_collector_is_running env
      then [CsiCollectorGetData (pdMS_TO_TICKS (configTICK_RATE_HZ env) 100)] else []) \<and>
   filter is_free_data (fst (loop_iteration config env st)) =
     (if csi_collector_is_running env \<and> fst (csi_collector_get_data env) = ESP_OK
      then [CsiCollectorFreeData
              (if ntp_sync_is_synchronized env \<and> fst (ntp_sync_get_time env) = ESP_OK
               then (snd (csi_collector_get_data env))
                      \<lparr>timestamp := clock_timestamp (snd (ntp_sync_get_time env))\<rparr>
               else snd (csi_collector_get_data env))]
      else [])"
  by (simp add: loop_iteration_events periodic_events process_csi_events event_filters
        correct_timestamp_def split: prod.splits)

theorem one_bounded_pop_and_timestamp_rule_witness:
  "filter is_get_data (fst (loop_iteration example_config example_env example_state)) =
     [CsiCollectorGetData 10] \<and>
   filter is_free_data (fst (loop_iteration example_config example_env example_state)) =
     [CsiCollectorFreeData (example_sample\<lparr>timestamp := 7000009\<rparr>)] \<and>
   filter is_free_data (fst (loop_iteration example_config failed_clock_env example_state)) =
     [CsiCollectorFreeData example_sample]"
  using one_bounded_pop_and_timestamp_rule [of example_config example_env example_state]
        one_bounded_pop_and_timestamp_rule [of example_config failed_clock_env example_state]
  by (simp add: failed_clock_env_def example_env_def clock_timestamp_def pdMS_TO_TICKS_def
        ESP_OK_def)

text \<open>
  C6 as stated fails where the clock reports synchronized but reading it fails: the
  sample keeps the collector's timestamp 5, not the clock's 7000009.
\<close>

theorem synchronized_clock_read_failure_counterexample:
  "ntp_sync_is_synchronized failed_clock_env \<and>
   filter is_free_data (fst (loop_iteration example_config failed_clock_env example_state)) =
     [CsiCollectorFreeData example_sample] \<and>
   timestamp example_sample = 5 \<and>
   clock_timestamp (snd (ntp_sync_get_time failed_clock_env)) = 7000009"
  by (simp add: loop_iteration_events periodic_events process_csi_events event_filters
        correct_timestamp_def failed_clock_env_def example_env_def example_sample_def
        clock_timestamp_def ESP_OK_def)


lemma process_csi_no_alert_restart:
  "filter is_alert (fst (process_csi env st)) = []"
  "filter is_restart (fst (process_csi env st)) = []"
  by (simp_all add: process_csi_events event_filters)

lemma loop_iteration_healthy:
  assumes "\<not> esp_get_free_heap_size env < 10000"
  shows "\<exists>st'. snd (loop_iteration config env st) = Returns st'"
    and "filter is_alert (fst (loop_iteration config env st)) = []"
    and "filter is_restart (fst (loop_iteration config env st)) = []"
  using assms
  by (simp_all add: loop_iteration_outcome loop_iteration_events periodic_events
        process_csi_no_alert_restart event_filters)

lemma loop_iteration_low_memory:
  assumes "esp_get_free_heap_size env < 10000"
  shows "\<exists>evs. loop_iteration config env st =
           (evs @ [MqttPublishAlert (c_str (device_name config)) ''ERROR'' ''SYSTEM''
                     ''Critical low memory'',
                   VTaskDelay (pdMS_TO_TICKS (configTICK_RATE_HZ env) 5000), EspRestart],
            Restarts) \<and>
           filter is_alert evs = [] \<and> filter is_restart evs = []"
proof -
  let ?st0 = "st\<lparr>loop_counter := loop_counter st + 1\<rparr>"
  let ?evs = "fst (process_csi env ?st0) @ fst (periodic env config (snd (process_csi env ?st0)))"
  have "fst (loop_iteration config env st) =
          ?evs @ [MqttPublishAlert (c_str (device_name config)) ''ERROR'' ''SYSTEM''
                    ''Critical low memory'',
                  VTaskDelay (pdMS_TO_TICKS (configTICK_RATE_HZ env) 5000), EspRestart]"
    using assms by (simp add: loop_iteration_events)
  moreover have "snd (loop_iteration config env st) = Restarts"
    using assms by (simp add: loop_iteration_outcome)
  moreover have "filter is_alert ?evs = []" and "filter is_restart ?evs = []"
    by (simp_all add: periodic_events process_csi_no_alert_restart)
  ultimately show ?thesis
    by (metis prod.collapse)
qed

lemma app_main_loop_step_returns:
  assumes "snd (loop_iteration config env st) = Returns st'"
  shows "app_main_loop config (env # envs) st =
           (fst (loop_iteration config env st) @ fst (app_main_loop config envs st'),
            snd (app_main_loop config envs st'))"
  using assms by (cases "loop_iteration config env st") (simp split: prod.splits)

lemma app_main_loop_step_restarts:
  assumes "snd (loop_iteration config env st) = Restarts"
  shows "app_main_loop config (env # envs) st = (fst (loop_iteration config env st), Restarts)"
  using assms by (cases "loop_iteration config env st") simp

text \<open>
  C5, as the code has it: in the first iteration whose free heap is below 10000 bytes
  the loop publishes one alert of level \<^verbatim>\<open>"ERROR"\<close> (component \<^verbatim>\<open>"SYSTEM"\<close>, message
  \<^verbatim>\<open>"Critical low memory"\<close>), whose result it does not read, then delays
  \<^verbatim>\<open>pdMS_TO_TICKS(5000)\<close>, then restarts; the run ends there, and no other alert or
  restart precedes these three steps.
\<close>

theorem low_memory_alert_wait_restart_once:
  assumes "\<forall>e \<in> set pre. \<not> esp_get_free_heap_size e < 10000"
      and "esp_get_free_heap_size env < 10000"
  shows "snd (app_main_loop config (pre @ env # post) st) = Restarts \<and>
         (\<exists>evs. fst (app_main_loop config (pre @ env # post) st) =
                  evs @ [MqttPublishAlert (c_str (device_name config)) ''ERROR'' ''SYSTEM''
                           ''Critical low memory'',
                         VTaskDelay (pdMS_TO_TICKS (configTICK_RATE_HZ env) 5000),
                         EspRestart] \<and>
                filter is_alert evs = [] \<and> filter is_restart evs = [])"
  using assms(1)
proof (induction pre arbitrary: st)
  case Nil
  from loop_iteration_low_memory [OF assms(2), of config st]
  obtain evs where
    "loop_iteration config env st =
       (evs @ [MqttPublishAlert (c_str (device_name config)) ''ERROR'' ''SYSTEM''
                 ''Critical low memory'',
               VTaskDelay (pdMS_TO_TICKS (configTICK_RATE_HZ env) 5000), EspRestart],
        Restarts)"
    and "filter is_alert evs = []" and "filter is_restart evs = []"
    by blast
  then show ?case by simp
next
  case (Cons e pre)
  then have healthy: "\<not> esp_get_free_heap_size e < 10000"
    and rest: "\<forall>e \<in> set pre. \<not> esp_get_free_heap_size e < 10000"
    by simp_all
  obtain st' where ret: "snd (loop_iteration config e st) = Returns st'"
    using loop_iteration_healthy(1) [OF healthy] by blast
  let ?ev0 = "fst (loop_iteration config e st)"
  have step: "app_main_loop config ((e # pre) @ env # post) st =
                (?ev0 @ fst (app_main_loop config (pre @ env # post) st'),
                 snd (app_main_loop config (pre @ env # post) st'))"
    using app_main_loop_step_returns [OF ret] by simp
  have quiet: "filter is_alert ?ev0 = []" "filter is_restart ?ev0 = []"
    using loop_iteration_healthy(2,3) [OF healthy] by simp_all
  from Cons.IH [OF rest, of st']
  obtain evs where r: "snd (app_main_loop config (pre @ env # post) st') = Restarts"
    and t: "fst (app_main_loop config (pre @ env # post) st') =
              evs @ [MqttPublishAlert (c_str (device_name config)) ''ERROR'' ''SYSTEM''
                       ''Critical low memory'',
                     VTaskDelay (pdMS_TO_TICKS (configTICK_RATE_HZ env) 5000), EspRestart]"
    and q: "filter is_alert evs = []" "filter is_restart evs = []"
    by blast
  have "snd (app_main_loop config ((e # pre) @ env # post) st) = Restarts"
    using step r by simp
  moreover have "fst (app_main_loop config ((e # pre) @ env # post) st) =
      (?ev0 @ evs) @ [MqttPublishAlert (c_str (device_name config)) ''ERROR'' ''SYSTEM''
                       ''Critical low memory'',
                     VTaskDelay (pdMS_TO_TICKS (configTICK_RATE_HZ env) 5000), EspRestart]"
    using step t by simp
  moreover have "filter is_alert (?ev0 @ evs) = []" "filter is_restart (?ev0 @ evs) = []"
    using quiet q by simp_all
  ultimately show ?case by blast
qed

theorem low_memory_alert_wait_restart_once_witness:
  "snd (app_main_loop example_config [healthy_env, healthy_env, example_env, healthy_env]
          example_state) = Restarts \<and>
   (\<exists>evs. fst (app_main_loop example_config [healthy_env, healthy_env, example_env, healthy_env]
                 example_state) =
            evs @ [MqttPublishAlert ''node1'' ''ERROR'' ''SYSTEM'' ''Critical low memory'',
                   VTaskDelay 500, EspRestart] \<and>
          filter is_alert evs = [] \<and> filter is_restart evs = [])"
proof -
  have h1: "\<forall>e \<in> set [healthy_env, healthy_env]. \<not> esp_get_free_heap_size e < 10000"
    by (simp add: healthy_env_def)
  have h2: "esp_get_free_heap_size example_env < 10000"
    by (simp add: example_env_def)
  have name: "c_str (device_name example_config) = ''node1''"
    by (simp add: example_config_def c_str_def NUL_def)
  have ticks: "pdMS_TO_TICKS (configTICK_RATE_HZ example_env) 5000 = 500"
    by (simp add: example_env_def pdMS_TO_TICKS_def)
  show ?thesis
    using low_memory_alert_wait_restart_once
            [OF h1 h2, of example_config "[healthy_env]" example_state]
    by (simp add: name ticks)
qed

text \<open>
  C5 as stated fails on the alert's level: the one alert of a low-memory iteration has
  level \<^verbatim>\<open>"ERROR"\<close>, not a critical level.
\<close>

theorem alert_level_is_error_counterexample:
  "filter is_alert (fst (app_main_loop example_config [example_env] example_state)) =
     [MqttPublishAlert ''node1'' ''ERROR'' ''SYSTEM'' ''Critical low memory''] \<and>
   map alert_level (filter is_alert
       (fst (app_main_loop example_config [example_env] example_state))) = [Some ''ERROR'']"
proof -
  have "snd (loop_iteration example_config example_env example_state) = Restarts"
    by (simp add: loop_iteration_outcome example_env_def)
  then have "app_main_loop example_config [example_env] example_state =
               (fst (loop_iteration example_config example_env example_state), Restarts)"
    by (rule app_main_loop_step_restarts)
  moreover have "esp_get_free_heap_size example_env < 10000"
    by (simp add: example_env_def)
  moreover have "c_str (device_name example_config) = ''node1''"
    by (simp add: example_config_def c_str_def NUL_def)
  ultimately show ?thesis
    by (simp add: loop_iteration_events periodic_events process_csi_no_alert_restart
          is_alert_def alert_level_def)
qed


section \<open>Properties of the modelled codec and channels\<close>


lemma u16_bytes:
  "(ucast (ucast (w :: 16 word) :: 8 word) :: 16 word) OR
   push_bit 8 (ucast (ucast (drop_bit 8 w) :: 8 word)) = w"
  by (rule bit_word_eqI) (auto simp: bit_simps)

lemma u32_bytes:
  "(ucast (ucast (w :: 32 word) :: 8 word) :: 32 word) OR
   push_bit 8 (ucast (ucast (drop_bit 8 w) :: 8 word)) OR
   push_bit 16 (ucast (ucast (drop_bit 16 w) :: 8 word)) OR
   push_bit 24 (ucast (ucast (drop_bit 24 w) :: 8 word)) = w"
proof (rule bit_word_eqI)
  fix n :: nat
  assume "n < LENGTH(32)"
  then show "bit (ucast (ucast w :: 8 word) OR
      push_bit 8 (ucast (ucast (drop_bit 8 w) :: 8 word)) OR
      push_bit 16 (ucast (ucast (drop_bit 16 w) :: 8 word)) OR
      push_bit 24 (ucast (ucast (drop_bit 24 w) :: 8 word)) :: 32 word) n = bit w n"
    by (cases "n < 8"; cases "n < 16"; cases "n < 24") (auto simp: bit_simps)
qed

lemma header_of_bytes_header_bytes: "header_of_bytes (header_bytes h) = h"
  by (simp add: header_of_bytes_def header_bytes_def u16_bytes u32_bytes)

lemma length_header_bytes: "length (header_bytes h) = 8"
  by (simp add: header_bytes_def)


lemma unat_len16: "n \<le> 65535 \<Longrightarrow> unat (of_nat n :: 16 word) = n"
  by (simp add: unat_of_nat)







text \<open>
  C2: a payload longer than 65535 bytes makes \<open>encode\<close> fail with
  \<open>PayloadTooLarge\<close>; and whenever \<open>encode\<close> succeeds, the payload has at most 65535
  bytes, closes the encoding whole, after the eight header bytes and the device id, and
  the header's 16-bit length field holds its exact length.
\<close>

theorem encode_rejects_oversized_payload:
  "(65535 < length payload \<longrightarrow>
      encode buf_size seq tag dev_id payload = Inl PayloadTooLarge) \<and>
   (encode buf_size seq tag dev_id payload = Inr bytes \<longrightarrow>
      length payload \<le> 65535 \<and>
      length bytes = 8 + length dev_id + length payload \<and>
      drop (8 + length dev_id) bytes = payload \<and>
      unat (payload_len (header_of_bytes (take 8 bytes))) = length payload)"
proof (intro conjI impI)
  assume "65535 < length payload"
  then show "encode buf_size seq tag dev_id payload = Inl PayloadTooLarge"
    by (simp add: encode_def)
next
  assume e: "encode buf_size seq tag dev_id payload = Inr bytes"
  then have fits: "length payload \<le> 65535"
    by (simp add: encode_def split: if_splits)
  from e have b: "bytes = header_bytes
                  \<lparr>msg_type = msg_type_code tag, device_id_len = of_nat (length dev_id),
                   payload_len = of_nat (length payload), sequence_num = seq\<rparr> @
                  dev_id @ payload"
    by (auto simp: encode_def split: if_splits)
  show "length payload \<le> 65535" by (rule fits)
  show "length bytes = 8 + length dev_id + length payload"
    by (simp add: b length_header_bytes)
  show "drop (8 + length dev_id) bytes = payload"
    by (simp add: b length_header_bytes)
  show "unat (payload_len (header_of_bytes (take 8 bytes))) = length payload"
    using fits by (simp add: b length_header_bytes header_of_bytes_header_bytes unat_len16)
qed

theorem encode_rejects_oversized_payload_witness:
  "65535 < length (replicate 65536 (0 :: 8 word)) \<and>
   encode 100000 7 WS_MSG_CSI_DATA [110, 49] (replicate 65536 0) = Inl PayloadTooLarge \<and>
   encode 1024 7 WS_MSG_CSI_DATA [110, 49] [9, 8] =
     Inr [1, 2, 2, 0, 7, 0, 0, 0, 110, 49, 9, 8] \<and>
   length [9, 8 :: 8 word] \<le> 65535 \<and>
   drop 10 [1, 2, 2, 0, 7, 0, 0, 0, 110, 49, 9, 8 :: 8 word] = [9, 8] \<and>
   unat (payload_len (header_of_bytes (take 8 [1, 2, 2, 0, 7, 0, 0, 0, 110, 49, 9, 8]))) = 2"
proof -
  have big: "65535 < length (replicate 65536 (0 :: 8 word))"
    by simp
  have ok: "encode 1024 7 WS_MSG_CSI_DATA [110, 49] [9, 8] =
              Inr [1, 2, 2, 0, 7, 0, 0, 0, 110, 49, 9, 8]"
    by (simp add: encode_def header_bytes_def)
  show ?thesis
    using encode_rejects_oversized_payload
            [of "replicate 65536 0" 100000 7 WS_MSG_CSI_DATA "[110, 49]" "[]"]
          encode_rejects_oversized_payload
            [of "[9, 8]" 1024 7 WS_MSG_CSI_DATA "[110, 49]"
                "[1, 2, 2, 0, 7, 0, 0, 0, 110, 49, 9, 8]"]
          big ok
    by simp
qed







lemma send_attempts_Suc_snd:
  "snd (send_attempts respond backoff endpoint tmo (Suc n) i) =
     (respond i = AttemptSucceeded \<or> snd (send_attempts respond backoff endpoint tmo n (Suc i)))"
  by (simp split: prod.splits)

lemma send_attempts_Suc_fst:
  "respond i \<noteq> AttemptSucceeded \<Longrightarrow>
   fst (send_attempts respond backoff endpoint tmo (Suc n) i) =
     HttpAttempt endpoint tmo # (if n = 0 then [] else [BackoffDelay (backoff i)]) @
     fst (send_attempts respond backoff endpoint tmo n (Suc i))"
  by (simp split: prod.splits)

lemma send_attempts_failed:
  "\<not> snd (send_attempts respond backoff endpoint tmo n i) \<Longrightarrow>
   filter is_attempt (fst (send_attempts respond backoff endpoint tmo n i)) =
     replicate n (HttpAttempt endpoint tmo)"
proof (induction n arbitrary: i)
  case 0
  show ?case by simp
next
  case (Suc n)
  from Suc.prems have "\<not> (respond i = AttemptSucceeded \<or>
      snd (send_attempts respond backoff endpoint tmo n (Suc i)))"
    unfolding send_attempts_Suc_snd .
  then have r: "respond i \<noteq> AttemptSucceeded"
    and rest: "\<not> snd (send_attempts respond backoff endpoint tmo n (Suc i))"
    by blast+
  have "fst (send_attempts respond backoff endpoint tmo (Suc n) i) =
          HttpAttempt endpoint tmo # (if n = 0 then [] else [BackoffDelay (backoff i)]) @
          fst (send_attempts respond backoff endpoint tmo n (Suc i))"
    using r by (rule send_attempts_Suc_fst)
  then show ?case
    using Suc.IH [OF rest] by (simp add: is_attempt_def)
qed

lemma send_attempts_never_succeeds:
  "\<forall>i. respond i \<noteq> AttemptSucceeded \<Longrightarrow>
   \<not> snd (send_attempts respond backoff endpoint tmo n i)"
proof (induction n arbitrary: i)
  case 0
  show ?case by simp
next
  case (Suc n)
  then show ?case
    by (simp only: send_attempts_Suc_snd) simp
qed

lemma http_send_unfold:
  "http_send cfg respond backoff stats endpoint payload n =
     (if snd (send_attempts respond backoff endpoint (timeout_ms cfg) n 0)
      then (fst (send_attempts respond backoff endpoint (timeout_ms cfg) n 0), Inr (),
            stats\<lparr>requests_sent := requests_sent stats + 1,
                  bytes_sent := bytes_sent stats + of_nat (length payload)\<rparr>)
      else (fst (send_attempts respond backoff endpoint (timeout_ms cfg) n 0),
            Inl TransmissionFailed,
            stats\<lparr>requests_failed := requests_failed stats + 1\<rparr>))"
  by (simp add: http_send_def split: prod.splits)

lemma http_send_failed:
  assumes "\<not> snd (send_attempts respond backoff endpoint (timeout_ms cfg) n 0)"
  shows "fst (snd (http_send cfg respond backoff stats endpoint payload n)) =
           Inl TransmissionFailed"
    and "filter is_attempt (fst (http_send cfg respond backoff stats endpoint payload n)) =
           replicate n (HttpAttempt endpoint (timeout_ms cfg))"
    and "requests_failed (snd (snd (http_send cfg respond backoff stats endpoint payload n))) =
           requests_failed stats + 1"
  using assms send_attempts_failed [OF assms]
  by (simp_all add: http_send_unfold)

lemma http_send_result:
  "fst (snd (http_send cfg respond backoff stats endpoint payload n)) = Inl TransmissionFailed
   \<longleftrightarrow> \<not> snd (send_attempts respond backoff endpoint (timeout_ms cfg) n 0)"
  by (simp add: http_send_unfold)

text \<open>
  C4: against an endpoint whose every attempt times out, a send with the configured
  \<^verbatim>\<open>retry_count\<close> makes exactly that many attempts, each bounded by
  \<^verbatim>\<open>timeout_ms\<close>, returns \<open>TransmissionFailed\<close> and adds exactly one to
  \<^verbatim>\<open>requests_failed\<close>; and whatever the endpoint does, \<open>TransmissionFailed\<close> is
  returned only with all the attempts made and one failure counted.
\<close>

theorem http_send_exhausts_retries_counts_one_failure:
  "((\<forall>i. respond i = AttemptTimedOut) \<longrightarrow>
      fst (snd (http_send cfg respond backoff stats endpoint payload (unat (retry_count cfg)))) =
        Inl TransmissionFailed \<and>
      filter is_attempt
        (fst (http_send cfg respond backoff stats endpoint payload (unat (retry_count cfg)))) =
        replicate (unat (retry_count cfg)) (HttpAttempt endpoint (timeout_ms cfg)) \<and>
      requests_failed
        (snd (snd (http_send cfg respond backoff stats endpoint payload (unat (retry_count cfg))))) =
        requests_failed stats + 1) \<and>
   (fst (snd (http_send cfg respond backoff stats endpoint payload (unat (retry_count cfg)))) =
      Inl TransmissionFailed \<longrightarrow>
      filter is_attempt
        (fst (http_send cfg respond backoff stats endpoint payload (unat (retry_count cfg)))) =
        replicate (unat (retry_count cfg)) (HttpAttempt endpoint (timeout_ms cfg)) \<and>
      requests_failed
        (snd (snd (http_send cfg respond backoff stats endpoint payload (unat (retry_count cfg))))) =
        requests_failed stats + 1)"
proof (intro conjI impI)
  let ?n = "unat (retry_count cfg)"
  {
    assume "\<forall>i. respond i = AttemptTimedOut"
    then have "\<forall>i. respond i \<noteq> AttemptSucceeded"
      by simp
    then have f: "\<not> snd (send_attempts respond backoff endpoint (timeout_ms cfg) ?n 0)"
      by (rule send_attempts_never_succeeds)
    show "fst (snd (http_send cfg respond backoff stats endpoint payload ?n)) =
            Inl TransmissionFailed"
      using http_send_failed(1) [OF f] .
    show "filter is_attempt (fst (http_send cfg respond backoff stats endpoint payload ?n)) =
            replicate ?n (HttpAttempt endpoint (timeout_ms cfg))"
      using http_send_failed(2) [OF f] .
    show "requests_failed (snd (snd (http_send cfg respond backoff stats endpoint payload ?n))) =
            requests_failed stats + 1"
      using http_send_failed(3) [OF f] .
  }
  {
    assume "fst (snd (http_send cfg respond backoff stats endpoint payload ?n)) =
              Inl TransmissionFailed"
    then have f: "\<not> snd (send_attempts respond backoff endpoint (timeout_ms cfg) ?n 0)"
      by (simp add: http_send_result)
    show "filter is_attempt (fst (http_send cfg respond backoff stats endpoint payload ?n)) =
            replicate ?n (HttpAttempt endpoint (timeout_ms cfg))"
      using http_send_failed(2) [OF f] .
    show "requests_failed (snd (snd (http_send cfg respond backoff stats endpoint payload ?n))) =
            requests_failed stats + 1"
      using http_send_failed(3) [OF f] .
  }
qed

theorem http_send_exhausts_retries_counts_one_failure_witness:
  "fst (snd (http_send example_http_config (\<lambda>i. AttemptTimedOut) (\<lambda>i. 50) example_stats
               ''/api/device/heartbeat'' [1, 2] 3)) = Inl TransmissionFailed \<and>
   filter is_attempt
     (fst (http_send example_http_config (\<lambda>i. AttemptTimedOut) (\<lambda>i. 50) example_stats
             ''/api/device/heartbeat'' [1, 2] 3)) =
     [HttpAttempt ''/api/device/heartbeat'' 100, HttpAttempt ''/api/device/heartbeat'' 100,
      HttpAttempt ''/api/device/heartbeat'' 100] \<and>
   requests_failed
     (snd (snd (http_send example_http_config (\<lambda>i. AttemptTimedOut) (\<lambda>i. 50) example_stats
                  ''/api/device/heartbeat'' [1, 2] 3))) = 2"
proof -
  have r: "unat (retry_count example_http_config) = 3"
    and t: "timeout_ms example_http_config = 100"
    and f: "requests_failed example_stats = 1"
    by (simp_all add: example_http_config_def example_stats_def)
  have three: "replicate 3 x = [x, x, x]" for x :: http_event
    by (simp add: numeral_3_eq_3)
  show ?thesis
    using http_send_exhausts_retries_counts_one_failure
            [of "\<lambda>i. AttemptTimedOut" example_http_config "\<lambda>i. 50" example_stats
                "''/api/device/heartbeat''" "[1, 2]"]
    by (simp add: r t f three)
qed


end
